theory Spec2Isabelle
  imports Complex_Main "HOL-Library.Char_ord" "HOL-Library.List_Lexorder"
begin

section \<open>Conventions of the embedding\<close>

text \<open>
  The TypeScript sources are embedded function by function, under the names they have in
  the repository.

  \<^item> A JavaScript string is a \<^typ>\<open>string\<close>. The model is exact for ASCII text; string
    literals of the source that are not ASCII are kept as the UTF-8 bytes they have in the
    source file. Where the source indexes a string by position (\<open>removeSharedPrefix\<close>), the
    bytes are decoded into UTF-16 code units.
  \<^item> A JavaScript number that holds a count is a \<^typ>\<open>nat\<close>. The quotients behind a
    percentage and the numbers that \<open>parseInt\<close> reads are rounded to doubles as the language
    rounds them. The significance test and the ratios of type detection are taken in exact
    real (or rational) arithmetic; \<open>NaN\<close> and \<open>undefined\<close> are explicit values.
  \<^item> A thrown exception is the \<open>Inl\<close> branch of a sum type.
\<close>

datatype error = TypeError

section \<open>JavaScript strings and objects\<close>

text \<open>The white space of \<open>String.prototype.trim\<close> and of the class \<open>\s\<close>, within ASCII.\<close>

definition isSpace :: "char \<Rightarrow> bool" where
  "isSpace c = (c \<in> set [CHR 0x09, CHR 0x0A, CHR 0x0B, CHR 0x0C, CHR 0x0D, CHR 0x20])"

definition isDigit :: "char \<Rightarrow> bool" where
  "isDigit c = (c \<in> set ''0123456789'')"

definition trim :: "string \<Rightarrow> string" where
  "trim s = rev (dropWhile isSpace (rev (dropWhile isSpace s)))"

definition lowerChar :: "char \<Rightarrow> char" where
  "lowerChar c =
     (if c \<in> set ''ABCDEFGHIJKLMNOPQRSTUVWXYZ'' then char_of (of_char c + (32::nat)) else c)"

definition toLowerCase :: "string \<Rightarrow> string" where
  "toLowerCase s = map lowerChar s"

definition startsWith :: "string \<Rightarrow> string \<Rightarrow> bool" where
  "startsWith s pre = (take (length pre) s = pre)"

text \<open>\<open>s.includes(sub)\<close>: \<open>sub\<close> occurs in \<open>s\<close> as a contiguous substring.\<close>

fun includesStr :: "string \<Rightarrow> string \<Rightarrow> bool" where
  "includesStr [] sub = (sub = [])"
| "includesStr (x # xs) sub = (startsWith (x # xs) sub \<or> includesStr xs sub)"

text \<open>The decimal digits of a count, as \<open>String(n)\<close> and template literals print it.\<close>

fun showNat :: "nat \<Rightarrow> string" where
  "showNat n =
     (if n < 10 then [char_of (48 + n)]
      else showNat (n div 10) @ [char_of (48 + n mod 10)])"

text \<open>The value of a string of decimal digits (\<open>parseInt\<close> on such a string).\<close>

definition digitsValue :: "string \<Rightarrow> nat" where
  "digitsValue ds = foldl (\<lambda>acc d. 10 * acc + (of_char d - 48)) 0 ds"

text \<open>
  A key that is an array index: a canonical decimal numeral below \<open>2^32 - 1\<close>. Among
  numerals of ten digits the order of the strings is the order of the numbers.
\<close>

definition isArrayIndex :: "string \<Rightarrow> bool" where
  "isArrayIndex k =
     (k \<noteq> [] \<and> list_all isDigit k \<and> (k = ''0'' \<or> hd k \<noteq> CHR ''0'') \<and>
      (length k < 10 \<or> (length k = 10 \<and> k \<le> ''4294967294'')))"

text \<open>
  An object used as a dictionary with keys added one by one is an association list in
  insertion order with distinct keys. \<open>Object.keys\<close>, \<open>Object.values\<close> and
  \<open>Object.entries\<close> enumerate it with the keys that are array indices first, in ascending
  numeric order, then all other keys in insertion order.
\<close>

type_synonym 'v dict = "(string \<times> 'v) list"

definition dictEntries :: "'v dict \<Rightarrow> (string \<times> 'v) list" where
  "dictEntries d =
     sort_key (\<lambda>(k, v). digitsValue k) (filter (\<lambda>(k, v). isArrayIndex k) d) @
     filter (\<lambda>(k, v). \<not> isArrayIndex k) d"

definition dictKeys :: "'v dict \<Rightarrow> string list" where
  "dictKeys d = map fst (dictEntries d)"

text \<open>
  The property names every plain object inherits from \<open>Object.prototype\<close>. Reading one of
  them from a dictionary that has no such own key yields the inherited member, not
  \<open>undefined\<close>.
\<close>

definition objectPrototypeKeys :: "string list" where
  "objectPrototypeKeys =
     [''constructor'', ''hasOwnProperty'', ''isPrototypeOf'', ''propertyIsEnumerable'',
      ''toLocaleString'', ''toString'', ''valueOf'', ''__proto__'',
      ''__defineGetter__'', ''__defineSetter__'', ''__lookupGetter__'', ''__lookupSetter__'']"

section \<open>JavaScript numbers\<close>

text \<open>The number of binary digits of a positive integer.\<close>

function bitLength :: "int \<Rightarrow> int" where
  "bitLength n = (if n \<le> 0 then 0 else 1 + bitLength (n div 2))"
  by pat_completeness auto
termination
  by (relation "measure nat") auto

declare bitLength.simps [simp del]

text \<open>The power of two with an integer exponent.\<close>

definition pow2 :: "int \<Rightarrow> rat" where
  "pow2 e = (if e \<ge> 0 then of_int (2 ^ nat e) else 1 / of_int (2 ^ nat (- e)))"

text \<open>Rounding to the nearest integer, a tie to the even one.\<close>

definition roundHalfEven :: "rat \<Rightarrow> int" where
  "roundHalfEven x =
     (let f = \<lfloor>x\<rfloor>;
          d = x - of_int f
      in if d < 1 / 2 then f
         else if d > 1 / 2 then f + 1
         else if even f then f else f + 1)"

text \<open>
  The double nearest to a rational number, as every arithmetic operation of the language
  rounds its exact result (binary64: 53 significant bits, round half to even, subnormal
  numbers below \<open>2\<^sup>-\<^sup>1\<^sup>0\<^sup>2\<^sup>2\<close>). The exponent \<open>e\<close> is the one with \<open>2\<^sup>e \<le> |x| < 2\<^sup>e\<^sup>+\<^sup>1\<close>. The
  range is not cut off here: a result of \<open>2\<^sup>1\<^sup>0\<^sup>2\<^sup>4\<close> or more stands for \<open>Infinity\<close>.
\<close>

definition toDouble :: "rat \<Rightarrow> rat" where
  "toDouble x =
     (if x = 0 then 0
      else
        let (a, b) = quotient_of \<bar>x\<bar>;
            e0 = bitLength a - bitLength b;
            e = (if pow2 e0 \<le> \<bar>x\<bar> then e0 else e0 - 1);
            ulp = pow2 (max (e - 52) (- 1074))
        in sgn x * of_int (roundHalfEven (\<bar>x\<bar> / ulp)) * ulp)"

text \<open>
  \<open>parseInt\<close> on a string of decimal digits: the double nearest to the value, and
  \<open>Infinity\<close> past the range of the doubles. \<open>Infinity\<close> is \<open>2\<^sup>1\<^sup>0\<^sup>2\<^sup>4\<close> here, which lies above
  every double.
\<close>

definition parseIntDigits :: "string \<Rightarrow> rat" where
  "parseIntDigits ds = min (toDouble (of_nat (digitsValue ds))) (pow2 1024)"

section \<open>Regular expressions\<close>

text \<open>
  The fragment of JavaScript regular expressions that the sources use, with the
  backtracking order of the language: quantifiers range over a character class, are
  greedy unless marked lazy, and alternatives are tried from left to right.
\<close>

datatype regex =
    Eps
  | Cls "char \<Rightarrow> bool"
  | Cat regex regex
  | Alt regex regex
  | Opt regex
  | Star "char \<Rightarrow> bool"
  | Plus "char \<Rightarrow> bool"
  | LazyPlus "char \<Rightarrow> bool"
  | Group nat regex
  | Eol

type_synonym captures = "nat \<rightharpoonup> string"

text \<open>
  \<open>run r (s, c)\<close> lists, in the order in which a backtracking matcher finds them, the ways
  \<open>r\<close> can match a prefix of \<open>s\<close>: each as the rest of the input and the captures.
\<close>

fun run :: "regex \<Rightarrow> string \<times> captures \<Rightarrow> (string \<times> captures) list" where
  "run Eps st = [st]"
| "run (Cls p) (s, c) = (case s of [] \<Rightarrow> [] | x # xs \<Rightarrow> if p x then [(xs, c)] else [])"
| "run (Cat a b) st = concat (map (run b) (run a st))"
| "run (Alt a b) st = run a st @ run b st"
| "run (Opt a) st = run a st @ [st]"
| "run (Star p) (s, c) = map (\<lambda>n. (drop n s, c)) (rev [0 ..< Suc (length (takeWhile p s))])"
| "run (Plus p) (s, c) = map (\<lambda>n. (drop n s, c)) (rev [1 ..< Suc (length (takeWhile p s))])"
| "run (LazyPlus p) (s, c) = map (\<lambda>n. (drop n s, c)) [1 ..< Suc (length (takeWhile p s))]"
| "run (Group i a) (s, c) =
     map (\<lambda>(s', c'). (s', c'(i \<mapsto> take (length s - length s') s))) (run a (s, c))"
| "run Eol (s, c) = (if s = [] then [(s, c)] else [])"

text \<open>A match of a pattern that starts with \<open>^\<close>: only at the start of the input.\<close>

definition matchStart :: "regex \<Rightarrow> string \<Rightarrow> captures option" where
  "matchStart r s = (case run r (s, Map.empty) of [] \<Rightarrow> None | (rest, c) # _ \<Rightarrow> Some c)"

text \<open>A match of an unanchored pattern: at the leftmost position where one exists.\<close>

fun matchAnywhere :: "regex \<Rightarrow> string \<Rightarrow> captures option" where
  "matchAnywhere r [] = matchStart r []"
| "matchAnywhere r (x # xs) =
     (case matchStart r (x # xs) of Some c \<Rightarrow> Some c | None \<Rightarrow> matchAnywhere r xs)"

definition seq :: "regex list \<Rightarrow> regex" where
  "seq rs = foldr Cat rs Eps"

definition chr :: "char \<Rightarrow> regex" where
  "chr c = Cls (\<lambda>x. x = c)"

definition oneOf :: "string \<Rightarrow> regex" where
  "oneOf cs = Cls (\<lambda>x. x \<in> set cs)"

definition lit :: "string \<Rightarrow> regex" where
  "lit s = seq (map chr s)"

text \<open>The class \<open>.\<close>: any character but a line terminator.\<close>

definition dot :: "char \<Rightarrow> bool" where
  "dot c = (c \<noteq> CHR 0x0A \<and> c \<noteq> CHR 0x0D)"


section \<open>utils/statisticalTests.ts\<close>

datatype number = Num real | NaN

datatype comparison = Higher | Lower | NoComparison

record SignificanceTestResult =
  isSignificant :: bool
  pValue :: number
  zScore :: number
  comparisonType :: comparison

text \<open>The Abramowitz and Stegun approximation of the normal distribution function.\<close>

definition normalCDF :: "real \<Rightarrow> real" where
  "normalCDF x =
     (let t = 1 / (1 + 0.2316419 * \<bar>x\<bar>);
          d = 0.3989423 * exp (- x * x / 2);
          prob = d * t * (0.3193815 + t * (-0.3565638 + t * (1.781478 + t * (-1.821256 + t * 1.330274))))
      in if x > 0 then 1 - prob else prob)"

text \<open>The object returned by both early exits of \<open>zTestForProportions\<close>.\<close>

definition notSignificant :: SignificanceTestResult where
  "notSignificant =
     \<lparr>isSignificant = False, pValue = Num 1, zScore = Num 0, comparisonType = NoComparison\<rparr>"

text \<open>
  What the arithmetic of \<open>zTestForProportions\<close> yields once a \<open>NaN\<close> has entered it: every
  later value is \<open>NaN\<close>, \<open>se === 0\<close> is false and \<open>pValue < alpha\<close> is false.
\<close>

definition nanResult :: SignificanceTestResult where
  "nanResult =
     \<lparr>isSignificant = False, pValue = NaN, zScore = NaN, comparisonType = NoComparison\<rparr>"

text \<open>
  The pooled standard error \<open>Math.sqrt(pPooled * (1 - pPooled) * (1/total1 + 1/total2))\<close>;
  \<open>Math.sqrt\<close> of a negative number is \<open>NaN\<close>.
\<close>

definition standardError :: "nat \<Rightarrow> nat \<Rightarrow> nat \<Rightarrow> nat \<Rightarrow> number" where
  "standardError count1 total1 count2 total2 =
     (let pPooled = (real count1 + real count2) / (real total1 + real total2);
          radicand = pPooled * (1 - pPooled) * (1 / real total1 + 1 / real total2)
      in if radicand < 0 then NaN else Num (sqrt radicand))"

text \<open>
  \<open>zTestForProportions(count1, total1, count2, total2, alpha)\<close>. The callers pass counts;
  a total is \<open>None\<close> when the caller read it past the end of the base vector
  (\<open>undefined\<close>), which makes every quotient \<open>NaN\<close>.
\<close>

definition zTestForProportions ::
  "nat \<Rightarrow> nat option \<Rightarrow> nat \<Rightarrow> nat option \<Rightarrow> real \<Rightarrow> SignificanceTestResult" where
  "zTestForProportions count1 total1 count2 total2 alpha =
     (if total1 = Some 0 \<or> total2 = Some 0 then notSignificant
      else case (total1, total2) of
        (Some t1, Some t2) \<Rightarrow>
          (let p1 = real count1 / real t1;
               p2 = real count2 / real t2
           in case standardError count1 t1 count2 t2 of
                NaN \<Rightarrow> nanResult
              | Num se \<Rightarrow>
                  if se = 0 then notSignificant
                  else
                    let z = (p1 - p2) / se;
                        p = 2 * (1 - normalCDF \<bar>z\<bar>);
                        significant = (p < alpha)
                    in \<lparr>isSignificant = significant, pValue = Num p, zScore = Num z,
                        comparisonType =
                          (if significant then (if p1 > p2 then Higher else Lower)
                           else NoComparison)\<rparr>)
      | _ \<Rightarrow> nanResult)"

text \<open>
  The two flag literals of \<open>performSignificanceTests\<close>. The second one is, in the source
  file, the three characters U+00E2 U+2020 U+201C (the bytes below), not the arrow U+2193
  that the exporter and the legend use.
\<close>

definition flagHigher :: string where
  "flagHigher = ''*''"

definition flagLower :: string where
  "flagLower = [CHR 0xC3, CHR 0xA2, CHR 0xE2, CHR 0x80, CHR 0xA0, CHR 0xE2, CHR 0x80, CHR 0x9C]"

text \<open>The arrow U+2193 as the exporter (\<open>cellText.includes\<close>) spells it.\<close>

definition downArrow :: string where
  "downArrow = [CHR 0xE2, CHR 0x86, CHR 0x93]"

text \<open>\<open>xs[i]\<close> of a JavaScript array: \<open>undefined\<close> past the end.\<close>

definition elemAt :: "'a list \<Rightarrow> nat \<Rightarrow> 'a option" where
  "elemAt xs i = (if i < length xs then Some (xs ! i) else None)"

text \<open>The body of the inner loop of \<open>performSignificanceTests\<close> for one cell.\<close>

definition flagCell :: "nat list \<Rightarrow> nat list \<Rightarrow> real \<Rightarrow> nat \<Rightarrow> string" where
  "flagCell row baseValues alpha colIndex =
     (if colIndex = 0 then ''''
      else
        let cellCount = row ! colIndex;
            cellBase = elemAt baseValues colIndex;
            totalCount = row ! 0;
            totalBase = elemAt baseValues 0;
            testResult = zTestForProportions cellCount cellBase totalCount totalBase alpha
        in if isSignificant testResult
           then (if comparisonType testResult = Higher then flagHigher else flagLower)
           else '''')"

definition performSignificanceTests :: "nat list list \<Rightarrow> nat list \<Rightarrow> real \<Rightarrow> string list list" where
  "performSignificanceTests absoluteData baseValues alpha =
     map (\<lambda>row. map (flagCell row baseValues alpha) [0 ..< length row]) absoluteData"

section \<open>types\<close>

datatype QuestionType =
  SingleChoice | MultipleChoice | Ranking | Binary | OpenEnded | Date | Numeric | Scale

section \<open>utils/rankingProcessor.ts\<close>

record ColumnMapping =
  rank1Columns :: "string list"
  rank2Columns :: "string list"
  rank3Columns :: "string list"

record RankQuestionStructure =
  questionName :: string
  options :: "string list"
  maxRanks :: nat
  columnMapping :: ColumnMapping

text \<open>The text of capture group \<open>i\<close> of a match.\<close>

definition group :: "captures \<Rightarrow> nat \<Rightarrow> string" where
  "group c i = (case c i of Some g \<Rightarrow> g | None \<Rightarrow> [])"

text \<open>
  The four patterns of \<open>extractRankQuestionRoot\<close>:
  \<open>/^(.+?)_[Rr]ank?\d+/\<close>, \<open>/^(.+?)_[Rr]\d+/\<close>, \<open>/^(.+?)_Rank_?\d+/\<close> and
  \<open>/^(.+?)\s+[Rr]ank\s*\d+/\<close>.
\<close>

definition rankRootPatterns :: "regex list" where
  "rankRootPatterns =
     [seq [Group 1 (LazyPlus dot), chr CHR ''_'', oneOf ''Rr'', lit ''an'', Opt (chr CHR ''k''),
           Plus isDigit],
      seq [Group 1 (LazyPlus dot), chr CHR ''_'', oneOf ''Rr'', Plus isDigit],
      seq [Group 1 (LazyPlus dot), lit ''_Rank'', Opt (chr CHR ''_''), Plus isDigit],
      seq [Group 1 (LazyPlus dot), Plus isSpace, oneOf ''Rr'', lit ''ank'', Star isSpace,
           Plus isDigit]]"

fun firstMatch :: "regex list \<Rightarrow> string \<Rightarrow> captures option" where
  "firstMatch [] s = None"
| "firstMatch (p # ps) s =
     (case matchStart p s of Some c \<Rightarrow> Some c | None \<Rightarrow> firstMatch ps s)"

definition extractRankQuestionRoot :: "string \<Rightarrow> string" where
  "extractRankQuestionRoot header =
     (case firstMatch rankRootPatterns header of
        Some c \<Rightarrow> trim (group c 1)
      | None \<Rightarrow> takeWhile (\<lambda>x. x \<noteq> CHR ''_'' \<and> \<not> isSpace x) header)"

text \<open>The pattern \<open>/[Rr]ank?_?(\d+)|[Rr](\d+)/\<close> of \<open>groupColumnsByRank\<close>.\<close>

definition rankNumberPattern :: regex where
  "rankNumberPattern =
     Alt (seq [oneOf ''Rr'', lit ''an'', Opt (chr CHR ''k''), Opt (chr CHR ''_''),
               Group 1 (Plus isDigit)])
         (seq [oneOf ''Rr'', Group 2 (Plus isDigit)])"

text \<open>\<open>groups[key].push(column)\<close>, after \<open>groups[key] = []\<close> when the key is new.\<close>

definition pushTo :: "string list dict \<Rightarrow> string \<Rightarrow> string \<Rightarrow> string list dict" where
  "pushTo groups key column =
     (if key \<in> fst ` set groups
      then map (\<lambda>(k, v). if k = key then (k, v @ [column]) else (k, v)) groups
      else groups @ [(key, [column])])"

text \<open>
  \<open>groupColumnsByRank\<close>. The keys of \<open>groups\<close> are sorted with the comparator
  \<open>parseInt(a) - parseInt(b)\<close>, whose sign orders the keys by the doubles that \<open>parseInt\<close>
  returns; two keys with the same double (also two that are \<open>Infinity\<close>, whose difference
  is \<open>NaN\<close>) compare equal and keep the order of \<open>Object.keys\<close>, the sort being stable.
\<close>

definition groupColumnsByRank :: "string list \<Rightarrow> string list list" where
  "groupColumnsByRank columns =
     (let groups =
            foldl (\<lambda>groups column.
                     case matchAnywhere rankNumberPattern column of
                       Some rankMatch \<Rightarrow>
                         let rankNum = (if group rankMatch 1 \<noteq> [] then group rankMatch 1
                                        else group rankMatch 2)
                         in pushTo groups rankNum column
                     | None \<Rightarrow> groups)
                  [] columns
      in map (\<lambda>(rank, cols). sort cols)
             (sort_key (\<lambda>(rank, cols). parseIntDigits rank) (dictEntries groups)))"

text \<open>The pattern \<open>/(?:[Rr]ank?\d*_?|[Rr]\d+_?)(.+)$/\<close> of \<open>extractOptionsFromRankGroup\<close>.\<close>

definition optionPattern :: regex where
  "optionPattern =
     seq [Alt (seq [oneOf ''Rr'', lit ''an'', Opt (chr CHR ''k''), Star isDigit, Opt (chr CHR ''_'')])
              (seq [oneOf ''Rr'', Plus isDigit, Opt (chr CHR ''_'')]),
          Group 1 (Plus dot), Eol]"

text \<open>
  \<open>.replace(/^_+|_+$/g, '').replace(/_/g, ' ').trim()\<close>: the underscores at both ends go,
  the others become spaces.
\<close>

definition cleanOption :: "string \<Rightarrow> string" where
  "cleanOption s =
     trim (map (\<lambda>x. if x = CHR ''_'' then CHR '' '' else x)
            (rev (dropWhile (\<lambda>x. x = CHR ''_'') (rev (dropWhile (\<lambda>x. x = CHR ''_'') s)))))"

definition extractOptionsFromRankGroup :: "string list \<Rightarrow> string list" where
  "extractOptionsFromRankGroup rankColumns =
     foldl (\<lambda>opts column.
              case matchAnywhere optionPattern column of
                Some optionMatch \<Rightarrow>
                  let option = cleanOption (group optionMatch 1)
                  in if option \<noteq> [] \<and> option \<notin> set opts then opts @ [option] else opts
              | None \<Rightarrow> opts)
           [] rankColumns"

text \<open>\<open>rankGroups[i] || []\<close>.\<close>

definition groupOrEmpty :: "string list list \<Rightarrow> nat \<Rightarrow> string list" where
  "groupOrEmpty rankGroups i = (case elemAt rankGroups i of Some g \<Rightarrow> g | None \<Rightarrow> [])"

definition analyzeRankStructure ::
  "string \<Rightarrow> string list \<Rightarrow> string list \<Rightarrow> RankQuestionStructure option" where
  "analyzeRankStructure questionRoot rankColumns allHeaders =
     (let sortedColumns = sort rankColumns;
          rankGroups = groupColumnsByRank sortedColumns
      in if length rankGroups < 2 then None
         else
           let opts = extractOptionsFromRankGroup (rankGroups ! 0)
           in if length opts = 0 then None
              else if \<not> list_all (\<lambda>g. length g = length opts) rankGroups then None
              else Some \<lparr>questionName = questionRoot,
                         options = opts,
                         maxRanks = min 3 (length rankGroups - 1),
                         columnMapping =
                           \<lparr>rank1Columns = groupOrEmpty rankGroups 1,
                            rank2Columns = groupOrEmpty rankGroups 2,
                            rank3Columns = groupOrEmpty rankGroups 3\<rparr>\<rparr>)"

text \<open>
  One step of the grouping loop of \<open>detectRankQuestionStructure\<close>. The test
  \<open>!questionGroups[questionRoot]\<close> finds the inherited member when the root is a property
  name of \<open>Object.prototype\<close>; no array is created then, and the call of \<open>push\<close> on the
  member throws.
\<close>

definition addToQuestionGroup ::
  "string list dict \<Rightarrow> string \<Rightarrow> error + string list dict" where
  "addToQuestionGroup questionGroups header =
     (let questionRoot = extractRankQuestionRoot header
      in if questionRoot \<in> fst ` set questionGroups
            then Inr (pushTo questionGroups questionRoot header)
         else if questionRoot \<in> set objectPrototypeKeys then Inl TypeError
         else Inr (pushTo questionGroups questionRoot header))"

fun groupByQuestionRoot :: "string list dict \<Rightarrow> string list \<Rightarrow> error + string list dict" where
  "groupByQuestionRoot questionGroups [] = Inr questionGroups"
| "groupByQuestionRoot questionGroups (header # rest) =
     (case addToQuestionGroup questionGroups header of
        Inl e \<Rightarrow> Inl e
      | Inr questionGroups' \<Rightarrow> groupByQuestionRoot questionGroups' rest)"

definition detectRankQuestionStructure ::
  "string list \<Rightarrow> (string \<rightharpoonup> QuestionType) \<Rightarrow> error + RankQuestionStructure list" where
  "detectRankQuestionStructure headers questionTypes =
     (let rankingHeaders = filter (\<lambda>header. questionTypes header = Some Ranking) headers
      in case groupByQuestionRoot [] rankingHeaders of
           Inl e \<Rightarrow> Inl e
         | Inr questionGroups \<Rightarrow>
             Inr (List.map_filter
                    (\<lambda>(questionRoot, columns). analyzeRankStructure questionRoot columns headers)
                    (dictEntries questionGroups)))"


section \<open>Percentages\<close>

text \<open>\<open>Math.round(x)\<close> for a number that is not negative: the nearest integer, halves upwards.\<close>

definition mathRound :: "rat \<Rightarrow> nat" where
  "mathRound x = nat \<lfloor>x + 1 / 2\<rfloor>"

text \<open>
  The expression \<open>base > 0 ? Math.round((count / base) * 100) : 0\<close>, which every
  aggregator of the cross-tab engine uses for a percentage cell. The quotient and the
  product are doubles: 23 of 40 is 57, not 58.
\<close>

definition roundedPercent :: "nat \<Rightarrow> nat \<Rightarrow> nat" where
  "roundedPercent count base =
     (if base > 0 then mathRound (toDouble (toDouble (of_nat count / of_nat base) * 100)) else 0)"

section \<open>Scenario data\<close>




section \<open>Tabular data\<close>

text \<open>
  A cell of the sheet is a string, a number or blank. A numeric cell carries the text that
  \<open>String\<close> gives the number (so \<open>0\<close> for both zeros and \<open>NaN\<close> for not-a-number); the host's
  \<open>Number\<close> maps this text back to the number. A cell that holds the boolean \<open>true\<close> reads
  like the string \<open>true\<close>, one that holds \<open>false\<close> like a blank cell.
\<close>

datatype cell = CStr string | CNum string | CEmpty

record ExcelData =
  dataHeaders :: "string list"
  dataRows :: "cell list list"
  fileName :: string

definition showInt :: "int \<Rightarrow> string" where
  "showInt i = (if i < 0 then CHR ''-'' # showNat (nat (- i)) else showNat (nat i))"

text \<open>
  JavaScript truthiness of a cell: the empty string, the numbers 0 and \<open>NaN\<close>, and blank are
  falsy.
\<close>

definition truthy :: "cell \<Rightarrow> bool" where
  "truthy c =
     (case c of
        CStr s \<Rightarrow> s \<noteq> []
      | CNum n \<Rightarrow> n \<noteq> ''0'' \<and> n \<noteq> ''NaN''
      | CEmpty \<Rightarrow> False)"

text \<open>\<open>c || ''\<close> for a cell \<open>c\<close> that may be \<open>undefined\<close>.\<close>

definition orEmpty :: "cell option \<Rightarrow> cell" where
  "orEmpty c = (case c of Some v \<Rightarrow> (if truthy v then v else CStr []) | None \<Rightarrow> CStr [])"

text \<open>\<open>String(c || '')\<close>.\<close>

definition cellText :: "cell option \<Rightarrow> string" where
  "cellText c = (case orEmpty c of CStr s \<Rightarrow> s | CNum n \<Rightarrow> n | CEmpty \<Rightarrow> [])"

text \<open>
  A row of \<open>dataMap\<close>: the record from column name to cell that \<open>generateCrossTabs\<close> builds.
  Column names are taken not to be property names of \<open>Object.prototype\<close>, so that reading a
  missing column yields \<open>undefined\<close>.
\<close>

type_synonym rowData = "string \<rightharpoonup> cell"

definition mkRowData :: "string list \<Rightarrow> cell list \<Rightarrow> rowData" where
  "mkRowData hs row =
     foldl (\<lambda>rowData (header, index). rowData(header \<mapsto> orEmpty (elemAt row index)))
           Map.empty (zip hs [0 ..< length hs])"

text \<open>\<open>String(row[col] || '').trim()\<close>, the way every aggregator reads a cell.\<close>

definition rowText :: "rowData \<Rightarrow> string \<Rightarrow> string" where
  "rowText row col = trim (cellText (row col))"

text \<open>The test \<open>val !== '' && val !== 'null' && val !== 'undefined'\<close>.\<close>

definition nonBlank :: "string \<Rightarrow> bool" where
  "nonBlank val = (val \<noteq> [] \<and> val \<noteq> ''null'' \<and> val \<noteq> ''undefined'')"

text \<open>\<open>[...new Set(values)].sort()\<close>: the distinct values in ascending order.\<close>

definition distinctSorted :: "string list \<Rightarrow> string list" where
  "distinctSorted vals = sort (remdups vals)"

text \<open>\<open>parts.join(sep)\<close>.\<close>

fun joinWith :: "string \<Rightarrow> string list \<Rightarrow> string" where
  "joinWith sep [] = []"
| "joinWith sep [x] = x"
| "joinWith sep (x # y # ys) = x @ sep @ joinWith sep (y # ys)"

section \<open>Filters\<close>

datatype FilterOperator =
  Equals | NotEquals | Contains | NotContains | GreaterThan | LessThan | InRange
  | IsEmpty | IsNotEmpty | StartsWith | EndsWith

record FilterConfig =
  column :: string
  operator :: FilterOperator
  filterValue :: cell
  secondValue :: "cell option"

text \<open>The first index of a value in an array (\<open>indexOf\<close>), if any.\<close>

fun indexOf :: "'a list \<Rightarrow> 'a \<Rightarrow> nat option" where
  "indexOf [] x = None"
| "indexOf (y # ys) x = (if y = x then Some 0 else map_option Suc (indexOf ys x))"

text \<open>
  The comparisons \<open>!isNaN(a) && !isNaN(b) && a > b\<close> and the like, on the results of the
  host's \<open>Number\<close>.
\<close>

definition numGreater :: "number \<Rightarrow> number \<Rightarrow> bool" where
  "numGreater a b = (case (a, b) of (Num x, Num y) \<Rightarrow> x > y | _ \<Rightarrow> False)"

definition numLess :: "number \<Rightarrow> number \<Rightarrow> bool" where
  "numLess a b = (case (a, b) of (Num x, Num y) \<Rightarrow> x < y | _ \<Rightarrow> False)"

definition numBetween :: "number \<Rightarrow> number \<Rightarrow> number \<Rightarrow> bool" where
  "numBetween v lo hi =
     (case (v, lo, hi) of (Num x, Num l, Num h) \<Rightarrow> x \<ge> l \<and> x \<le> h | _ \<Rightarrow> False)"

text \<open>\<open>filter.secondValue || 0\<close>.\<close>

definition orZero :: "cell option \<Rightarrow> cell" where
  "orZero c = (case c of Some v \<Rightarrow> (if truthy v then v else CNum ''0'') | None \<Rightarrow> CNum ''0'')"

text \<open>
  The predicate that \<open>applyFilters\<close> evaluates for one filter on one row. \<open>toNumber\<close> is the
  host function \<open>Number\<close> on strings. The \<open>switch\<close> has seven cases; every other operator
  takes the \<open>default\<close> branch.
\<close>

definition filterAccepts ::
  "(string \<Rightarrow> number) \<Rightarrow> string list \<Rightarrow> cell list \<Rightarrow> FilterConfig \<Rightarrow> bool" where
  "filterAccepts toNumber hs row flt =
     (case indexOf hs (column flt) of
        None \<Rightarrow> True
      | Some columnIndex \<Rightarrow>
          let cellValue = toLowerCase (trim (cellText (elemAt row columnIndex)));
              filterVal = toLowerCase (trim (cellText (Some (filterValue flt))))
          in case operator flt of
               Equals \<Rightarrow> cellValue = filterVal
             | NotEquals \<Rightarrow> cellValue \<noteq> filterVal
             | Contains \<Rightarrow> includesStr cellValue filterVal
             | NotContains \<Rightarrow> \<not> includesStr cellValue filterVal
             | GreaterThan \<Rightarrow> numGreater (toNumber cellValue) (toNumber filterVal)
             | LessThan \<Rightarrow> numLess (toNumber cellValue) (toNumber filterVal)
             | InRange \<Rightarrow>
                 numBetween (toNumber cellValue) (toNumber filterVal)
                   (case orZero (secondValue flt) of
                      CNum n \<Rightarrow> toNumber n
                    | CStr s \<Rightarrow> toNumber s
                    | CEmpty \<Rightarrow> Num 0)
             | _ \<Rightarrow> True)"

definition applyFilters ::
  "(string \<Rightarrow> number) \<Rightarrow> ExcelData \<Rightarrow> FilterConfig dict \<Rightarrow> ExcelData" where
  "applyFilters toNumber data filters =
     (if length (dictKeys filters) = 0 then data
      else data\<lparr>dataRows :=
             filter (\<lambda>row. list_all (\<lambda>(filterId, flt). filterAccepts toNumber (dataHeaders data) row flt)
                                     (dictEntries filters))
                    (dataRows data)\<rparr>)"

section \<open>utils/textProcessing.ts\<close>

text \<open>The part of \<open>s\<close> before the first occurrence of \<open>d\<close>: \<open>s.split(d)[0]\<close>.\<close>

fun beforeFirst :: "string \<Rightarrow> string \<Rightarrow> string" where
  "beforeFirst d [] = []"
| "beforeFirst d (x # xs) = (if startsWith (x # xs) d then [] else x # beforeFirst d xs)"

text \<open>
  The delimiters of \<open>extractQuestionFromHeader\<close>; the second and third are the en dash and
  the em dash between spaces.
\<close>

definition questionDelimiters :: "string list" where
  "questionDelimiters =
     ['' - '',
      [CHR '' '', CHR 0xE2, CHR 0x80, CHR 0x93, CHR '' ''],
      [CHR '' '', CHR 0xE2, CHR 0x80, CHR 0x94, CHR '' ''],
      '': '', '' | '', '' ; '']"

definition extractQuestionFromHeader :: "string \<Rightarrow> string" where
  "extractQuestionFromHeader header =
     (case find (\<lambda>delimiter. includesStr header delimiter) questionDelimiters of
        Some delimiter \<Rightarrow> trim (beforeFirst delimiter header)
      | None \<Rightarrow>
          (case matchStart (Group 1 (Plus (\<lambda>c. c \<noteq> CHR ''(''))) header of
             Some parenMatch \<Rightarrow> trim (group parenMatch 1)
           | None \<Rightarrow> header))"

text \<open>
  \<open>removeSharedPrefix\<close> works on positions of its strings, which are UTF-16 code units.
  \<open>utf8Chars\<close> cuts the bytes of a string into its characters, \<open>codePoint\<close> decodes one,
  and \<open>utf16Units\<close> lists the code units: one for a character of the basic plane, a
  surrogate pair for any other.
\<close>

definition charWidth :: "char \<Rightarrow> nat" where
  "charWidth c =
     (if (of_char c :: nat) < 0xC0 then 1
      else if (of_char c :: nat) < 0xE0 then 2
      else if (of_char c :: nat) < 0xF0 then 3 else 4)"

function utf8Chars :: "string \<Rightarrow> string list" where
  "utf8Chars [] = []"
| "utf8Chars (c # cs) =
     (c # take (charWidth c - 1) cs) # utf8Chars (drop (charWidth c - 1) cs)"
  by pat_completeness auto
termination
  by (relation "measure length") auto

definition codePoint :: "string \<Rightarrow> int" where
  "codePoint bytes =
     (case map of_char bytes of
        [a, b] \<Rightarrow> (a mod 32) * 64 + b mod 64
      | [a, b, c] \<Rightarrow> (a mod 16) * 4096 + (b mod 64) * 64 + c mod 64
      | [a, b, c, d] \<Rightarrow> (a mod 8) * 262144 + (b mod 64) * 4096 + (c mod 64) * 64 + d mod 64
      | a # _ \<Rightarrow> a
      | [] \<Rightarrow> 0)"

definition utf16Units :: "string \<Rightarrow> int list" where
  "utf16Units s =
     concat (map (\<lambda>bytes.
                    let cp = codePoint bytes
                    in if cp \<ge> 0x10000
                       then [0xD800 + (cp - 0x10000) div 1024, 0xDC00 + (cp - 0x10000) mod 1024]
                       else [cp])
                 (utf8Chars s))"

text \<open>
  The way back: adjacent surrogates form one character again, and every code point gets
  its bytes (a surrogate left alone gets the three bytes of its number).
\<close>

fun codePoints :: "int list \<Rightarrow> int list" where
  "codePoints (h # l # rest) =
     (if 0xD800 \<le> h \<and> h < 0xDC00 \<and> 0xDC00 \<le> l \<and> l < 0xE000
      then (0x10000 + (h - 0xD800) * 1024 + (l - 0xDC00)) # codePoints rest
      else h # codePoints (l # rest))"
| "codePoints [u] = [u]"
| "codePoints [] = []"

definition utf8Bytes :: "int \<Rightarrow> string" where
  "utf8Bytes cp =
     map char_of
       (if cp < 0x80 then [cp]
        else if cp < 0x800 then [0xC0 + cp div 64, 0x80 + cp mod 64]
        else if cp < 0x10000
        then [0xE0 + cp div 4096, 0x80 + (cp div 64) mod 64, 0x80 + cp mod 64]
        else [0xF0 + cp div 262144, 0x80 + (cp div 4096) mod 64, 0x80 + (cp div 64) mod 64,
              0x80 + cp mod 64])"

definition fromUnits :: "int list \<Rightarrow> string" where
  "fromUnits units = concat (map utf8Bytes (codePoints units))"

text \<open>
  The code units of the class \<open>\s\<close>, which are also what \<open>trim\<close> removes: the white space
  and the line terminators of the language.
\<close>

definition isSpaceUnit :: "int \<Rightarrow> bool" where
  "isSpaceUnit u =
     (u \<in> set [0x09, 0x0A, 0x0B, 0x0C, 0x0D, 0x20, 0xA0, 0x1680, 0x2028, 0x2029, 0x202F,
                0x205F, 0x3000, 0xFEFF] \<or>
      (0x2000 \<le> u \<and> u \<le> 0x200A))"

text \<open>
  The class \<open>[\s\-:|;]\<close> extended by the en dash U+2013 and the em dash U+2014, as both
  patterns of \<open>removeSharedPrefix\<close> have it.
\<close>

definition isDelimiterUnit :: "int \<Rightarrow> bool" where
  "isDelimiterUnit u = (isSpaceUnit u \<or> u \<in> set [0x2D, 0x2013, 0x2014, 0x3A, 0x7C, 0x3B])"

definition trimUnits :: "int list \<Rightarrow> int list" where
  "trimUnits us = rev (dropWhile isSpaceUnit (rev (dropWhile isSpaceUnit us)))"

text \<open>The loop of \<open>removeSharedPrefix\<close> that collects the longest common prefix.\<close>

fun sharedPrefix :: "'a list \<Rightarrow> 'a list list \<Rightarrow> 'a list" where
  "sharedPrefix [] columns = []"
| "sharedPrefix (c # cs) columns =
     (if list_all (\<lambda>col. col \<noteq> [] \<and> hd col = c) columns
      then c # sharedPrefix cs (map tl columns) else [])"

definition removeSharedPrefix :: "string list \<Rightarrow> string list" where
  "removeSharedPrefix columns =
     (if length columns \<le> 1 then columns
      else
        let units = map utf16Units columns;
            commonPrefix = rev (dropWhile isDelimiterUnit (rev (sharedPrefix (hd units) units)))
        in if length commonPrefix > 3
           then map (\<lambda>col.
                       let cleaned = dropWhile isDelimiterUnit
                                       (trimUnits (drop (length commonPrefix) (utf16Units col)))
                       in if cleaned \<noteq> [] then fromUnits cleaned else col)
                    columns
           else columns)"

section \<open>utils/excelProcessor.ts: banners\<close>

record BannerStructure =
  question :: string
  answers :: "string list"
  startIndex :: nat
  endIndex :: nat

text \<open>
  The sorted distinct non-blank values of a banner column, which every aggregator stores
  in \<open>bannerValuesByVar[bannerVar]\<close>.
\<close>

definition bannerValues :: "rowData list \<Rightarrow> string \<Rightarrow> string list" where
  "bannerValues dataMap bannerVar =
     distinctSorted (filter nonBlank (map (\<lambda>row. rowText row bannerVar) dataMap))"

text \<open>
  The banner columns in the order in which the nested loops
  \<open>bannerVars.forEach(bannerVar => bannerValuesByVar[bannerVar].forEach(bannerVal => ...))\<close>
  visit them: column \<open>i + 1\<close> of a result is the \<open>i\<close>-th pair.
\<close>

definition bannerColumns :: "rowData list \<Rightarrow> string list \<Rightarrow> (string \<times> string) list" where
  "bannerColumns dataMap bannerVars =
     concat (map (\<lambda>bannerVar. map (\<lambda>bannerVal. (bannerVar, bannerVal))
                                 (bannerValues dataMap bannerVar))
                 bannerVars)"

definition allBannerHeaders :: "rowData list \<Rightarrow> string list \<Rightarrow> string list" where
  "allBannerHeaders dataMap bannerVars = ''Total'' # map snd (bannerColumns dataMap bannerVars)"

fun bannerStructureFrom :: "rowData list \<Rightarrow> nat \<Rightarrow> string list \<Rightarrow> BannerStructure list" where
  "bannerStructureFrom dataMap currentIndex [] = []"
| "bannerStructureFrom dataMap currentIndex (bannerVar # rest) =
     (let vals = bannerValues dataMap bannerVar
      in \<lparr>question = extractQuestionFromHeader bannerVar,
          answers = vals,
          startIndex = currentIndex,
          endIndex = currentIndex + length vals - 1\<rparr>
         # bannerStructureFrom dataMap (currentIndex + length vals) rest)"

definition createBannerStructure :: "string list \<Rightarrow> rowData list \<Rightarrow> BannerStructure list" where
  "createBannerStructure bannerVars dataMap = bannerStructureFrom dataMap 1 bannerVars"

text \<open>The number of rows that satisfy a predicate: \<open>dataMap.filter(p).length\<close>.\<close>

definition countRows :: "(rowData \<Rightarrow> bool) \<Rightarrow> rowData list \<Rightarrow> nat" where
  "countRows p dataMap = length (filter p dataMap)"

text \<open>A percentage cell: the template literal \<open>${percentage}%\<close>.\<close>

definition percentText :: "nat \<Rightarrow> string" where
  "percentText p = showNat p @ ''%''"

text \<open>
  The percentage row of one matrix row. Column 0 divides the total count by the total
  base; column \<open>colIndex\<close> divides \<open>absRow[colIndex]\<close> by \<open>baseValues[colIndex]\<close>.
\<close>

definition percentRow :: "nat list \<Rightarrow> nat list \<Rightarrow> nat \<Rightarrow> string list" where
  "percentRow absRow baseValues nBanner =
     percentText (roundedPercent (absRow ! 0) (baseValues ! 0))
     # map (\<lambda>colIndex. percentText (roundedPercent (absRow ! colIndex) (baseValues ! colIndex)))
           [1 ..< Suc nBanner]"

text \<open>
  The display name of a table, \<open>config.tableNames[tableVar] || tableVar\<close>: a text, or the
  member of \<open>Object.prototype\<close> that the lookup finds under a name the configuration does
  not hold.
\<close>

datatype tableName = TableName string | PrototypeMember string

record CrossTabResult =
  name :: string
  displayName :: tableName
  absolute :: "nat list list"
  percentage :: "string list list"
  headers :: "string list"
  rowLabels :: "string list"
  bannerQuestion :: string
  bannerAnswers :: "string list"
  questionType :: QuestionType
  baseValues :: "nat list"
  validationErrors :: "string list"
  significanceFlags :: "string list list"
  bannerStructure :: "BannerStructure list"

section \<open>utils/excelProcessor.ts: open-ended questions\<close>

definition themeKeywords :: "(string \<times> string list) list" where
  "themeKeywords =
     [(''Price/Cost/Value'',
        [''price'', ''cost'', ''cheap'', ''expensive'', ''affordable'', ''budget'',
         ''money'', ''value'', ''worth'', ''pricing'', ''fee'', ''charge'', ''rate'',
         ''economical'', ''inexpensive'']),
      (''Quality/Performance'',
        [''quality'', ''good'', ''bad'', ''excellent'', ''poor'', ''high-quality'',
         ''low-quality'', ''performance'', ''reliable'', ''durable'', ''effective'',
         ''efficient'', ''superior'']),
      (''Customer Service'',
        [''service'', ''staff'', ''customer'', ''help'', ''support'', ''friendly'', ''rude'',
         ''assistance'', ''representative'', ''team'', ''personnel'', ''helpful'',
         ''professional'']),
      (''Location/Accessibility'',
        [''location'', ''close'', ''near'', ''far'', ''convenient'', ''accessible'',
         ''parking'', ''distance'', ''proximity'', ''nearby'', ''remote'', ''central'',
         ''easy to find'']),
      (''Product Features'',
        [''product'', ''feature'', ''function'', ''design'', ''style'', ''variety'',
         ''selection'', ''options'', ''functionality'', ''capability'', ''specification'',
         ''attribute'']),
      (''User Experience'',
        [''experience'', ''feel'', ''atmosphere'', ''environment'', ''comfortable'',
         ''pleasant'', ''enjoyable'', ''satisfaction'', ''impression'', ''usability'',
         ''interface'']),
      (''Speed/Efficiency'',
        [''time'', ''fast'', ''slow'', ''quick'', ''wait'', ''delay'', ''speed'',
         ''efficient'', ''prompt'', ''rapid'', ''immediate'', ''timely'', ''responsive'']),
      (''Recommendation/Loyalty'',
        [''recommend'', ''suggest'', ''refer'', ''tell'', ''friends'', ''family'',
         ''loyalty'', ''trust'', ''confidence'', ''satisfaction'', ''repeat'']),
      (''Communication'',
        [''communication'', ''information'', ''clear'', ''confusing'', ''explanation'',
         ''instructions'', ''guidance'', ''feedback'', ''response'', ''contact'']),
      (''Convenience/Ease'',
        [''convenient'', ''easy'', ''simple'', ''straightforward'', ''hassle'',
         ''complicated'', ''difficult'', ''user-friendly'', ''intuitive''])]"

text \<open>The state kept per theme; \<open>themeCount\<close> is the field \<open>count\<close> of the source.\<close>

record ThemeData =
  themeCount :: nat
  actualResponses :: "string list"
  responsesByBanner :: "string list dict"

text \<open>
  The search for the theme with the most keyword hits: a later theme replaces the best
  one only with strictly more hits.
\<close>

definition bestTheme :: "string \<Rightarrow> string \<times> nat" where
  "bestTheme lowerResponse =
     foldl (\<lambda>(bestMatch, maxMatches) (theme, keywords).
              let matches = length (filter (\<lambda>keyword. includesStr lowerResponse keyword) keywords)
              in if matches > maxMatches then (theme, matches) else (bestMatch, maxMatches))
           ([], 0) themeKeywords"

text \<open>
  What one categorised response does to its theme: the count, the verbatim list, and one
  push per banner variable whose value in this row is a known banner value.
\<close>

definition recordResponse ::
  "rowData list \<Rightarrow> string list \<Rightarrow> rowData \<Rightarrow> string \<Rightarrow> ThemeData \<Rightarrow> ThemeData" where
  "recordResponse dataMap bannerVars row response td =
     td\<lparr>themeCount := themeCount td + 1,
        actualResponses := actualResponses td @ [response],
        responsesByBanner :=
          foldl (\<lambda>byBanner bannerVar.
                   let bannerValue = rowText row bannerVar
                   in if bannerValue \<noteq> [] \<and> bannerValue \<in> set (bannerValues dataMap bannerVar)
                      then pushTo byBanner bannerValue response else byBanner)
                (responsesByBanner td) bannerVars\<rparr>"

definition initialThemes :: "rowData list \<Rightarrow> string list \<Rightarrow> (string \<times> ThemeData) list" where
  "initialThemes dataMap bannerVars =
     map (\<lambda>theme. (theme,
                    \<lparr>themeCount = 0, actualResponses = [],
                     responsesByBanner =
                       map (\<lambda>bannerVal. (bannerVal, []))
                           (remdups (map snd (bannerColumns dataMap bannerVars)))\<rparr>))
         (map fst themeKeywords @ [''Other''])"

definition categorize ::
  "rowData list \<Rightarrow> string \<Rightarrow> string list \<Rightarrow> (string \<times> ThemeData) list \<Rightarrow> rowData
     \<Rightarrow> (string \<times> ThemeData) list" where
  "categorize dataMap tableVar bannerVars themes row =
     (let response = rowText row tableVar
      in if \<not> nonBlank response then themes
         else
           let (bestMatch, maxMatches) = bestTheme (toLowerCase response);
               target = (if maxMatches > 0 then bestMatch else ''Other'')
           in map (\<lambda>(theme, td).
                     if theme = target
                     then (theme, recordResponse dataMap bannerVars row response td)
                     else (theme, td))
                  themes)"

definition extractThemesWithResponses ::
  "string list \<Rightarrow> rowData list \<Rightarrow> string \<Rightarrow> string list \<Rightarrow> (string \<times> ThemeData) list" where
  "extractThemesWithResponses responses dataMap tableVar bannerVars =
     (let validResponses = filter (\<lambda>r. r \<noteq> [] \<and> length (trim r) > 0) responses
      in if length validResponses = 0 then []
         else
           let themes = foldl (categorize dataMap tableVar bannerVars)
                              (initialThemes dataMap bannerVars) dataMap
           in sort_key (\<lambda>(theme, td). - int (themeCount td))
                (filter (\<lambda>(theme, td). themeCount td > 0) themes))"

text \<open>\<open>bannerVars.join(' | ')\<close> and the other fields that every aggregator fills alike.\<close>

definition bannerQuestionOf :: "string list \<Rightarrow> string" where
  "bannerQuestionOf bannerVars = joinWith '' | '' bannerVars"

definition createOpenEndedCrossTab ::
  "rowData list \<Rightarrow> string \<Rightarrow> string list \<Rightarrow> string list \<Rightarrow> tableName
     \<Rightarrow> CrossTabResult option" where
  "createOpenEndedCrossTab dataMap tableVar bannerVars allHeaders dispName =
     (let allResponses = filter nonBlank (map (\<lambda>row. rowText row tableVar) dataMap)
      in if length allResponses = 0 then None
         else
           let cols = bannerColumns dataMap bannerVars;
               totalBase = length allResponses;
               bases = totalBase
                 # map (\<lambda>(bannerVar, bannerVal).
                          countRows (\<lambda>row. nonBlank (rowText row tableVar) \<and>
                                           rowText row bannerVar = bannerVal) dataMap)
                       cols;
               themesWithResponses =
                 extractThemesWithResponses allResponses dataMap tableVar bannerVars
           in if length themesWithResponses = 0 then None
              else
                let themeRows =
                      map (\<lambda>(theme, td).
                             themeCount td
                             # map (\<lambda>(bannerVar, bannerVal).
                                      case map_of (responsesByBanner td) bannerVal of
                                        Some rs \<Rightarrow> length rs | None \<Rightarrow> 0)
                                   cols)
                          themesWithResponses;
                    absRows = bases # replicate (length bases) 0 # themeRows;
                    pctRows = map (\<lambda>b. ''100%'') bases
                      # replicate (length bases) []
                      # map (\<lambda>absRow. percentRow absRow bases (length cols)) themeRows
                in Some \<lparr>name = tableVar @ ''_themes_by_'' @ joinWith ''_'' bannerVars,
                          displayName = dispName,
                          absolute = absRows,
                          percentage = pctRows,
                          headers = allBannerHeaders dataMap bannerVars,
                          rowLabels = ''FULL RESPONSES'' # ''--- THEMATIC ANALYSIS ---''
                                      # map fst themesWithResponses,
                          bannerQuestion = bannerQuestionOf bannerVars,
                          bannerAnswers = tl (allBannerHeaders dataMap bannerVars),
                          questionType = OpenEnded,
                          baseValues = bases,
                          validationErrors = [],
                          significanceFlags = performSignificanceTests absRows bases 0.05,
                          bannerStructure = createBannerStructure bannerVars dataMap\<rparr>)"

section \<open>utils/excelProcessor.ts: single columns\<close>

text \<open>\<open>parseInt(pctStr.replace('%', ''))\<close> on a percentage cell, which starts with its digits.\<close>

definition parsePercent :: "string \<Rightarrow> nat" where
  "parsePercent pctStr = digitsValue (takeWhile isDigit (remove1 CHR ''%'' pctStr))"

text \<open>
  The check of single-choice and binary tables: one warning per column whose category
  percentages sum to more than 5 away from 100.
\<close>

definition percentageWarnings :: "string list \<Rightarrow> string list list \<Rightarrow> nat \<Rightarrow> string list" where
  "percentageWarnings hdrs pct nRows =
     concat (map (\<lambda>colIndex.
                    let total = sum_list (map (\<lambda>rowIndex. parsePercent (pct ! rowIndex ! colIndex))
                                              [0 ..< nRows])
                    in if \<bar>int total - 100\<bar> > 5
                       then [''Column '' @ [CHR 0x22] @ hdrs ! colIndex @ [CHR 0x22]
                             @ '' percentages sum to '' @ showNat total
                             @ ''% instead of 100%. This may indicate data quality issues.'']
                       else [])
                 [0 ..< length hdrs])"

text \<open>The row categories: the sorted distinct non-blank values of the table variable.\<close>

definition tableValuesOf :: "rowData list \<Rightarrow> string \<Rightarrow> string list" where
  "tableValuesOf dataMap tableVar =
     distinctSorted (filter nonBlank (map (\<lambda>row. rowText row tableVar) dataMap))"

text \<open>
  The base of every column: the rows with a non-blank table value, for a banner column
  those whose banner cell equals the banner value.
\<close>

definition regularBases :: "rowData list \<Rightarrow> string \<Rightarrow> string list \<Rightarrow> nat list" where
  "regularBases dataMap tableVar bannerVars =
     countRows (\<lambda>row. nonBlank (rowText row tableVar)) dataMap
     # map (\<lambda>(bannerVar, bannerVal).
              countRows (\<lambda>row. nonBlank (rowText row tableVar) \<and>
                               rowText row bannerVar = bannerVal) dataMap)
           (bannerColumns dataMap bannerVars)"

text \<open>The counts of one category: the total column, then one cell per banner column.\<close>

definition regularCounts :: "rowData list \<Rightarrow> string \<Rightarrow> string list \<Rightarrow> string \<Rightarrow> nat list" where
  "regularCounts dataMap tableVar bannerVars tableVal =
     countRows (\<lambda>row. rowText row tableVar = tableVal) dataMap
     # map (\<lambda>(bannerVar, bannerVal).
              countRows (\<lambda>row. rowText row tableVar = tableVal \<and>
                               rowText row bannerVar = bannerVal) dataMap)
           (bannerColumns dataMap bannerVars)"

text \<open>
  \<open>createRegularCrossTab\<close>. The optional blocks of the result (\<open>scaleCalculations\<close>,
  \<open>rankingCalculations\<close>, \<open>statisticalMeasures\<close>, \<open>openEndedThemes\<close>) are computed from the
  finished matrices and do not enter the fields modelled here.
\<close>

definition createRegularCrossTab ::
  "rowData list \<Rightarrow> string \<Rightarrow> string list \<Rightarrow> QuestionType \<Rightarrow> string list \<Rightarrow> tableName
     \<Rightarrow> CrossTabResult option" where
  "createRegularCrossTab dataMap tableVar bannerVars qType allHeaders dispName =
     (if qType = OpenEnded
      then createOpenEndedCrossTab dataMap tableVar bannerVars allHeaders dispName
      else
        let tableValues = tableValuesOf dataMap tableVar
        in if length tableValues = 0 then None
           else
             let nBanner = length (bannerColumns dataMap bannerVars);
                 hdrs = allBannerHeaders dataMap bannerVars;
                 bases = regularBases dataMap tableVar bannerVars;
                 valueRows = map (regularCounts dataMap tableVar bannerVars) tableValues;
                 absRows = valueRows @ [bases];
                 pctRows = map (\<lambda>absRow. percentRow absRow bases nBanner) valueRows
                           @ [map (\<lambda>b. ''100%'') bases]
             in Some \<lparr>name = tableVar @ ''_by_'' @ joinWith ''_'' bannerVars,
                       displayName = dispName,
                       absolute = absRows,
                       percentage = pctRows,
                       headers = hdrs,
                       rowLabels = tableValues @ [''Total''],
                       bannerQuestion = bannerQuestionOf bannerVars,
                       bannerAnswers = tl hdrs,
                       questionType = qType,
                       baseValues = bases,
                       validationErrors =
                         (if qType = SingleChoice \<or> qType = Binary
                          then percentageWarnings hdrs pctRows (length tableValues) else []),
                       significanceFlags = performSignificanceTests absRows bases 0.05,
                       bannerStructure = createBannerStructure bannerVars dataMap\<rparr>)"

section \<open>utils/excelProcessor.ts: multi-select batteries\<close>

text \<open>The helper \<open>isSelected\<close> of \<open>createMultiSelectCrossTab\<close>.\<close>

definition isSelected :: "cell option \<Rightarrow> bool" where
  "isSelected v =
     (let cellValue = toLowerCase (trim (cellText v))
      in cellValue \<noteq> [] \<and> cellValue \<noteq> ''0'' \<and> cellValue \<noteq> ''no'' \<and>
         cellValue \<noteq> ''false'' \<and> cellValue \<noteq> ''n/a'' \<and> cellValue \<noteq> ''na'' \<and>
         cellValue \<noteq> ''null'' \<and> cellValue \<noteq> ''undefined'')"

text \<open>
  \<open>createMultiSelectCrossTab\<close>. The loop over the battery columns starts each iteration
  with \<open>dataMap[0].hasOwnProperty(col)\<close>; with no rows \<open>dataMap[0]\<close> is \<open>undefined\<close> and
  the first iteration throws a \<open>TypeError\<close>. It throws as well when the sheet has a column
  named \<open>hasOwnProperty\<close>: the first row then holds a cell under that name, and the call
  applies the cell. A column that the first row lacks is skipped.
\<close>

definition createMultiSelectCrossTab ::
  "rowData list \<Rightarrow> string \<Rightarrow> string list \<Rightarrow> string list \<Rightarrow> string list \<Rightarrow> tableName
     \<Rightarrow> error + CrossTabResult" where
  "createMultiSelectCrossTab dataMap groupName bannerVars multiSelectCols allHeaders dispName =
     (let cols = bannerColumns dataMap bannerVars;
          hdrs = allBannerHeaders dataMap bannerVars;
          anySelected = (\<lambda>row. list_ex (\<lambda>col. isSelected (row col)) multiSelectCols);
          totalBase = countRows anySelected dataMap;
          bases = totalBase
            # map (\<lambda>(bannerVar, bannerVal).
                     countRows (\<lambda>row. rowText row bannerVar = bannerVal \<and> anySelected row) dataMap)
                  cols;
          cleanedOptions = removeSharedPrefix multiSelectCols
      in if multiSelectCols \<noteq> [] \<and> (dataMap = [] \<or> ''hasOwnProperty'' \<in> dom (hd dataMap))
         then Inl TypeError
         else
           let kept = filter (\<lambda>(col, index). col \<in> dom (hd dataMap))
                             (zip multiSelectCols [0 ..< length multiSelectCols]);
               optionRows =
                 map (\<lambda>(col, index).
                        countRows (\<lambda>row. isSelected (row col)) dataMap
                        # map (\<lambda>(bannerVar, bannerVal).
                                 countRows (\<lambda>row. isSelected (row col) \<and>
                                                  rowText row bannerVar = bannerVal) dataMap)
                              cols)
                     kept;
               absRows = optionRows @ [bases];
               pctRows = map (\<lambda>absRow. percentRow absRow bases (length cols)) optionRows
                         @ [map (\<lambda>b. ''100%'') bases]
           in Inr \<lparr>name = groupName @ ''_by_'' @ joinWith ''_'' bannerVars,
                    displayName = dispName,
                    absolute = absRows,
                    percentage = pctRows,
                    headers = hdrs,
                    rowLabels = map (\<lambda>(col, index). cleanedOptions ! index) kept
                                @ [''NET: Any Response''],
                    bannerQuestion = bannerQuestionOf bannerVars,
                    bannerAnswers = tl hdrs,
                    questionType = MultipleChoice,
                    baseValues = bases,
                    validationErrors =
                      (if totalBase = 0
                       then [''No respondents found who answered any option in multi-select group: ''
                             @ groupName]
                       else []),
                    significanceFlags = performSignificanceTests absRows bases 0.05,
                    bannerStructure = createBannerStructure bannerVars dataMap\<rparr>)"

text \<open>\<open>createCustomVariableCrossTab\<close> is a placeholder: it returns \<open>null\<close>.\<close>

record CustomVariable =
  customId :: string
  customName :: string
  sourceColumns :: "string list"

definition createCustomVariableCrossTab ::
  "rowData list \<Rightarrow> string \<Rightarrow> string list \<Rightarrow> CustomVariable \<Rightarrow> string list \<Rightarrow> tableName
     \<Rightarrow> CrossTabResult option" where
  "createCustomVariableCrossTab dataMap variableName bannerVars customVariable allHeaders dispName =
     None"

section \<open>Ranking batteries: aggregation\<close>

text \<open>\<open>maxRanks\<close> of the source is \<open>calcMaxRanks\<close> here.\<close>

record RankingCalculations =
  rank1Only :: "nat list list"
  rank2Only :: "nat list list"
  rank3Only :: "nat list list"
  rank1Plus2 :: "nat list list"
  rank1Plus2Plus3 :: "nat list list"
  rankOptions :: "string list"
  calcMaxRanks :: nat

text \<open>The test \<open>value !== '' && value !== '0' && value !== 'null' && value !== 'undefined'\<close>.\<close>

definition hasRankValue :: "string \<Rightarrow> bool" where
  "hasRankValue v = (v \<noteq> [] \<and> v \<noteq> ''0'' \<and> v \<noteq> ''null'' \<and> v \<noteq> ''undefined'')"

text \<open>
  \<open>calculateRankCount\<close> of rankingProcessor.ts; \<open>columnName\<close> is \<open>None\<close> for \<open>undefined\<close>.
\<close>

definition calculateRankCount ::
  "rowData list \<Rightarrow> string option \<Rightarrow> string list \<Rightarrow> nat \<Rightarrow> nat" where
  "calculateRankCount dataMap columnName bannerVars colIndex =
     (case columnName of
        None \<Rightarrow> 0
      | Some col \<Rightarrow>
          if col = [] then 0
          else if colIndex = 0 then countRows (\<lambda>row. hasRankValue (rowText row col)) dataMap
          else (case elemAt (bannerColumns dataMap bannerVars) (colIndex - 1) of
                  Some (bannerVar, bannerVal) \<Rightarrow>
                    countRows (\<lambda>row. hasRankValue (rowText row col) \<and>
                                     rowText row bannerVar = bannerVal) dataMap
                | None \<Rightarrow> 0))"

definition createRankingCrossTab ::
  "rowData list \<Rightarrow> RankQuestionStructure \<Rightarrow> string list \<Rightarrow> nat list \<Rightarrow> RankingCalculations" where
  "createRankingCrossTab dataMap rankStructure bannerVars bases =
     (let mapping = columnMapping rankStructure;
          perOption = (\<lambda>f. map (\<lambda>optionIndex.
                              map (\<lambda>colIndex.
                                     let rank1Count = calculateRankCount dataMap
                                           (elemAt (rank1Columns mapping) optionIndex) bannerVars colIndex;
                                         rank2Count = calculateRankCount dataMap
                                           (elemAt (rank2Columns mapping) optionIndex) bannerVars colIndex;
                                         rank3Count = calculateRankCount dataMap
                                           (elemAt (rank3Columns mapping) optionIndex) bannerVars colIndex
                                     in roundedPercent (f rank1Count rank2Count rank3Count)
                                                       (bases ! colIndex))
                                  [0 ..< length bases])
                            [0 ..< length (options rankStructure)])
      in \<lparr>rank1Only = perOption (\<lambda>r1 r2 r3. r1),
          rank2Only = perOption (\<lambda>r1 r2 r3. r2),
          rank3Only = perOption (\<lambda>r1 r2 r3. r3),
          rank1Plus2 = perOption (\<lambda>r1 r2 r3. r1 + r2),
          rank1Plus2Plus3 = perOption (\<lambda>r1 r2 r3. r1 + r2 + r3),
          rankOptions = options rankStructure,
          calcMaxRanks = maxRanks rankStructure\<rparr>)"

definition upperChar :: "char \<Rightarrow> char" where
  "upperChar c =
     (if c \<in> set ''abcdefghijklmnopqrstuvwxyz'' then char_of (of_char c - (32::nat)) else c)"

definition toUpperCase :: "string \<Rightarrow> string" where
  "toUpperCase s = map upperChar s"

text \<open>
  One of the five sections of \<open>createRankQuestionCrossTab\<close>: nothing when the data is
  empty, else a header row of zeros and one row per option. Each section is a list of
  (label, absolute row, percentage row).
\<close>

definition rankSection ::
  "string list \<Rightarrow> nat list \<Rightarrow> string \<Rightarrow> nat list list \<Rightarrow> (string \<times> nat list \<times> string list) list" where
  "rankSection opts bases label rows =
     (if length rows > 0
      then (''--- '' @ toUpperCase label @ '' ---'',
            replicate (length bases) 0, replicate (length bases) [])
           # map (\<lambda>(row, optionIndex).
                    ((case elemAt opts optionIndex of
                        Some optionName \<Rightarrow>
                          if optionName \<noteq> [] then optionName
                          else ''Option '' @ showNat (optionIndex + 1)
                      | None \<Rightarrow> ''Option '' @ showNat (optionIndex + 1)),
                     map (\<lambda>(pct, colIndex).
                            mathRound (toDouble (toDouble (of_nat pct * of_nat (bases ! colIndex))
                                                   / 100)))
                         (zip row [0 ..< length row]),
                     map percentText row))
                 (zip rows [0 ..< length rows])
      else [])"

text \<open>
  The bases of a ranking battery: the rows with a qualifying value in any mapped rank
  column, for a banner column those whose banner cell equals the banner value.
\<close>

definition rankBases :: "rowData list \<Rightarrow> string list \<Rightarrow> RankQuestionStructure \<Rightarrow> nat list" where
  "rankBases dataMap bannerVars rankStructure =
     (let mapping = columnMapping rankStructure;
          allRankColumns = filter (\<lambda>col. col \<noteq> [])
                             (rank1Columns mapping @ rank2Columns mapping @ rank3Columns mapping);
          hasAnyRanking = (\<lambda>row. list_ex (\<lambda>col. hasRankValue (rowText row col)) allRankColumns)
      in countRows hasAnyRanking dataMap
         # map (\<lambda>(bannerVar, bannerVal).
                  countRows (\<lambda>row. rowText row bannerVar = bannerVal \<and> hasAnyRanking row) dataMap)
               (bannerColumns dataMap bannerVars))"

text \<open>The five sections in the order of the array \<open>rankingTypes\<close>.\<close>

definition rankSections ::
  "RankingCalculations \<Rightarrow> nat list \<Rightarrow> (string \<times> nat list \<times> string list) list" where
  "rankSections calc bases =
     rankSection (rankOptions calc) bases ''Rank 1 Only'' (rank1Only calc)
     @ rankSection (rankOptions calc) bases ''Rank 2 Only'' (rank2Only calc)
     @ rankSection (rankOptions calc) bases ''Rank 3 Only'' (rank3Only calc)
     @ rankSection (rankOptions calc) bases ''Rank 1 + 2'' (rank1Plus2 calc)
     @ rankSection (rankOptions calc) bases ''Rank 1 + 2 + 3'' (rank1Plus2Plus3 calc)"

definition createRankQuestionCrossTab ::
  "rowData list \<Rightarrow> string \<Rightarrow> string list \<Rightarrow> RankQuestionStructure \<Rightarrow> string list \<Rightarrow> tableName
     \<Rightarrow> CrossTabResult" where
  "createRankQuestionCrossTab dataMap qName bannerVars rankStructure allHeaders dispName =
     (let hdrs = allBannerHeaders dataMap bannerVars;
          bases = rankBases dataMap bannerVars rankStructure;
          calc = createRankingCrossTab dataMap rankStructure bannerVars bases;
          sections = rankSections calc bases;
          absRows = map (\<lambda>(label, absRow, pctRow). absRow) sections
      in \<lparr>name = qName @ ''_ranking_by_'' @ joinWith ''_'' bannerVars,
          displayName = dispName,
          absolute = absRows,
          percentage = map (\<lambda>(label, absRow, pctRow). pctRow) sections,
          headers = hdrs,
          rowLabels = map (\<lambda>(label, absRow, pctRow). label) sections,
          bannerQuestion = bannerQuestionOf bannerVars,
          bannerAnswers = tl hdrs,
          questionType = Ranking,
          baseValues = bases,
          validationErrors =
            (if bases ! 0 = 0
             then [''No respondents found who provided rankings for: '' @ qName] else []),
          significanceFlags = performSignificanceTests absRows bases 0.05,
          bannerStructure = createBannerStructure bannerVars dataMap\<rparr>)"

section \<open>utils/excelProcessor.ts: generateCrossTabs\<close>

text \<open>
  The configuration of a run. \<open>nestedFilters\<close> is not read by \<open>generateCrossTabs\<close> and is
  left out.
\<close>

record CrossTabConfig =
  tableVariables :: "string list"
  bannerVariables :: "string list"
  multiSelectGroups :: "string list dict"
  questionTypes :: "string \<rightharpoonup> QuestionType"
  tableNames :: "string \<rightharpoonup> string"
  filters :: "FilterConfig dict"
  customVariables :: "CustomVariable dict"

text \<open>
  \<open>config.tableNames[tableVar] || tableVar\<close>. Without an entry of its own the lookup of a
  property name of \<open>Object.prototype\<close> yields the inherited member, which is truthy.
\<close>

definition tableNameOf :: "CrossTabConfig \<Rightarrow> string \<Rightarrow> tableName" where
  "tableNameOf config tableVar =
     (case tableNames config tableVar of
        Some n \<Rightarrow> (if n \<noteq> [] then TableName n else TableName tableVar)
      | None \<Rightarrow>
          (if tableVar \<in> set objectPrototypeKeys then PrototypeMember tableVar
           else TableName tableVar))"

text \<open>
  The body of the loop over \<open>config.tableVariables\<close>: the results it pushes for one table
  variable (none or one), or the exception it throws.
\<close>

definition processTableVariable ::
  "ExcelData \<Rightarrow> CrossTabConfig \<Rightarrow> rowData list \<Rightarrow> RankQuestionStructure list \<Rightarrow> string
     \<Rightarrow> error + CrossTabResult list" where
  "processTableVariable data config dataMap rankQuestionStructures tableVar =
     (let isMultiSelectGroup = (tableVar \<in> set (dictKeys (multiSelectGroups config)));
          isCustomVariable = (tableVar \<in> set (dictKeys (customVariables config)));
          isRankQuestion = list_ex (\<lambda>rank. questionName rank = tableVar) rankQuestionStructures
      in if isMultiSelectGroup then
           (case map_of (multiSelectGroups config) tableVar of
              Some multiSelectCols \<Rightarrow>
                if length multiSelectCols > 0
                then (case createMultiSelectCrossTab dataMap tableVar (bannerVariables config)
                             multiSelectCols (dataHeaders data) (tableNameOf config tableVar) of
                        Inl e \<Rightarrow> Inl e
                      | Inr result \<Rightarrow> Inr [result])
                else Inr []
            | None \<Rightarrow> Inr [])
         else if isCustomVariable then
           (case map_of (customVariables config) tableVar of
              Some customVar \<Rightarrow>
                (case createCustomVariableCrossTab dataMap tableVar (bannerVariables config)
                        customVar (dataHeaders data) (tableNameOf config tableVar) of
                   Some result \<Rightarrow> Inr [result]
                 | None \<Rightarrow> Inr [])
            | None \<Rightarrow> Inr [])
         else if isRankQuestion then
           (case find (\<lambda>rank. questionName rank = tableVar) rankQuestionStructures of
              Some rankStructure \<Rightarrow>
                Inr [createRankQuestionCrossTab dataMap tableVar (bannerVariables config)
                       rankStructure (dataHeaders data) (tableNameOf config tableVar)]
            | None \<Rightarrow> Inr [])
         else if tableVar \<in> set (dataHeaders data) then
           (case createRegularCrossTab dataMap tableVar (bannerVariables config)
                   (case questionTypes config tableVar of Some t \<Rightarrow> t | None \<Rightarrow> SingleChoice)
                   (dataHeaders data) (tableNameOf config tableVar) of
              Some result \<Rightarrow> Inr [result]
            | None \<Rightarrow> Inr [])
         else Inr [])"

fun processTableVariables ::
  "ExcelData \<Rightarrow> CrossTabConfig \<Rightarrow> rowData list \<Rightarrow> RankQuestionStructure list \<Rightarrow> string list
     \<Rightarrow> error + CrossTabResult list" where
  "processTableVariables data config dataMap ranks [] = Inr []"
| "processTableVariables data config dataMap ranks (tableVar # rest) =
     (case processTableVariable data config dataMap ranks tableVar of
        Inl e \<Rightarrow> Inl e
      | Inr results \<Rightarrow>
          (case processTableVariables data config dataMap ranks rest of
             Inl e \<Rightarrow> Inl e
           | Inr others \<Rightarrow> Inr (results @ others)))"

definition generateCrossTabs ::
  "(string \<Rightarrow> number) \<Rightarrow> ExcelData \<Rightarrow> CrossTabConfig \<Rightarrow> error + CrossTabResult list" where
  "generateCrossTabs toNumber data config =
     (let filteredData = applyFilters toNumber data (filters config);
          dataMap = map (mkRowData (dataHeaders data)) (dataRows filteredData)
      in case detectRankQuestionStructure (dataHeaders data) (questionTypes config) of
           Inl e \<Rightarrow> Inl e
         | Inr rankQuestionStructures \<Rightarrow>
             processTableVariables data config dataMap rankQuestionStructures
               (tableVariables config))"

text \<open>
  Scenario A: 100 respondents with the binary column Gender and the banner Region; North
  has 30 Male and 10 Female, South has 30 Male and 30 Female.
\<close>

definition scenarioAData :: ExcelData where
  "scenarioAData =
     \<lparr>dataHeaders = [''Gender'', ''Region''],
      dataRows = replicate 30 [CStr ''Male'', CStr ''North'']
                 @ replicate 10 [CStr ''Female'', CStr ''North'']
                 @ replicate 30 [CStr ''Male'', CStr ''South'']
                 @ replicate 30 [CStr ''Female'', CStr ''South''],
      fileName = ''scenarioA.xlsx''\<rparr>"

definition scenarioADataMap :: "rowData list" where
  "scenarioADataMap = map (mkRowData (dataHeaders scenarioAData)) (dataRows scenarioAData)"

text \<open>A host \<open>Number\<close> for runs in which no numeric filter is configured.\<close>

definition noNumber :: "string \<Rightarrow> number" where
  "noNumber s = NaN"

definition scenarioAConfig :: CrossTabConfig where
  "scenarioAConfig =
     \<lparr>tableVariables = [''Gender''],
      bannerVariables = [''Region''],
      multiSelectGroups = [],
      questionTypes = map_of [(''Gender'', Binary)],
      tableNames = Map.empty,
      filters = [],
      customVariables = []\<rparr>"

text \<open>The result of the regular cross-tab of Gender by Region on Scenario A.\<close>

definition scenarioAResult :: CrossTabResult where
  "scenarioAResult =
     \<lparr>name = ''Gender_by_Region'',
      displayName = TableName ''Gender'',
      absolute = [[40, 10, 30], [60, 30, 30], [100, 40, 60]],
      percentage = [[''40%'', ''25%'', ''50%''], [''60%'', ''75%'', ''50%''],
                    [''100%'', ''100%'', ''100%'']],
      headers = [''Total'', ''North'', ''South''],
      rowLabels = [''Female'', ''Male'', ''Total''],
      bannerQuestion = ''Region'',
      bannerAnswers = [''North'', ''South''],
      questionType = Binary,
      baseValues = [100, 40, 60],
      validationErrors = [],
      significanceFlags = [['''', '''', ''''], ['''', '''', ''''], ['''', '''', '''']],
      bannerStructure =
        [\<lparr>question = ''Region'', answers = [''North'', ''South''],
          startIndex = 1, endIndex = 2\<rparr>]\<rparr>"

text \<open>
  A run on Scenario A whose only selected table variable is the custom variable Segment.
\<close>

definition scenarioCustomConfig :: CrossTabConfig where
  "scenarioCustomConfig =
     \<lparr>tableVariables = [''Segment''],
      bannerVariables = [''Region''],
      multiSelectGroups = [],
      questionTypes = Map.empty,
      tableNames = Map.empty,
      filters = [],
      customVariables =
        [(''Segment'',
          \<lparr>customId = ''custom_1'', customName = ''Segment'', sourceColumns = [''Gender'']\<rparr>)]\<rparr>"

text \<open>
  A sheet with headers and no data rows, and a run that selects the multi-select group
  Channels over two of its columns.
\<close>

definition scenarioEmptyData :: ExcelData where
  "scenarioEmptyData =
     \<lparr>dataHeaders = [''Web'', ''Phone'', ''Region''], dataRows = [], fileName = ''empty.xlsx''\<rparr>"

definition scenarioMultiConfig :: CrossTabConfig where
  "scenarioMultiConfig =
     \<lparr>tableVariables = [''Channels''],
      bannerVariables = [''Region''],
      multiSelectGroups = [(''Channels'', [''Web'', ''Phone''])],
      questionTypes = Map.empty,
      tableNames = Map.empty,
      filters = [],
      customVariables = []\<rparr>"

text \<open>
  A sheet with one answered and one blank cell in column Q1, and the simple filter
  "Q1 is empty".
\<close>

definition scenarioFilterData :: ExcelData where
  "scenarioFilterData =
     \<lparr>dataHeaders = [''Q1''],
      dataRows = [[CStr ''answered''], [CStr '''']],
      fileName = ''filter.xlsx''\<rparr>"

definition scenarioIsEmptyFilter :: "FilterConfig dict" where
  "scenarioIsEmptyFilter =
     [(''filter_1'',
       \<lparr>column = ''Q1'', operator = IsEmpty, filterValue = CStr '''', secondValue = None\<rparr>)]"

section \<open>The shape of a result\<close>

text \<open>
  The shape invariant of a \<open>CrossTabResult\<close>: \<open>absolute\<close>, \<open>percentage\<close> and
  \<open>significanceFlags\<close> have the same number of rows and the same length row by row, there
  is one row label per row, and \<open>headers\<close>, \<open>baseValues\<close> and every row of \<open>absolute\<close> have
  the same length.
\<close>

definition shapeInvariant :: "CrossTabResult \<Rightarrow> bool" where
  "shapeInvariant r =
     (map length (percentage r) = map length (absolute r) \<and>
      map length (significanceFlags r) = map length (absolute r) \<and>
      length (rowLabels r) = length (absolute r) \<and>
      length (headers r) = length (baseValues r) \<and>
      list_all (\<lambda>absRow. length absRow = length (headers r)) (absolute r))"

section \<open>utils/questionTypeDetector.ts\<close>

text \<open>
  The record returned by \<open>analyzeQuestionType\<close>; \<open>detectedType\<close> is the field \<open>type\<close> of
  the source. Ratios and thresholds are exact rationals.
\<close>

record QuestionTypeAnalysis =
  detectedType :: QuestionType
  confidence :: rat
  reasoning :: string

text \<open>\<open>\d{n}\<close>: exactly \<open>n\<close> digits.\<close>

definition digitsN :: "nat \<Rightarrow> regex" where
  "digitsN n = seq (replicate n (Cls isDigit))"

text \<open>\<open>(:\d{2})?\<close>, the optional seconds of a time.\<close>

definition optSeconds :: regex where
  "optSeconds = Opt (seq [chr CHR '':'', digitsN 2])"

text \<open>The eight date and time patterns, each anchored at both ends.\<close>

definition datePatterns :: "regex list" where
  "datePatterns =
     [seq [digitsN 4, chr CHR ''-'', digitsN 2, chr CHR ''-'', digitsN 2, Eol],
      seq [digitsN 2, chr CHR ''/'', digitsN 2, chr CHR ''/'', digitsN 4, Eol],
      seq [digitsN 2, chr CHR ''-'', digitsN 2, chr CHR ''-'', digitsN 4, Eol],
      seq [Cls isDigit, Opt (Cls isDigit), chr CHR ''/'', Cls isDigit, Opt (Cls isDigit),
           chr CHR ''/'', digitsN 2, Opt (Cls isDigit), Opt (Cls isDigit), Eol],
      seq [digitsN 4, chr CHR ''/'', digitsN 2, chr CHR ''/'', digitsN 2, Eol],
      seq [digitsN 2, chr CHR '':'', digitsN 2, optSeconds, Eol],
      seq [digitsN 4, chr CHR ''-'', digitsN 2, chr CHR ''-'', digitsN 2, Plus isSpace,
           digitsN 2, chr CHR '':'', digitsN 2, optSeconds, Eol],
      seq [digitsN 2, chr CHR ''/'', digitsN 2, chr CHR ''/'', digitsN 4, Plus isSpace,
           digitsN 2, chr CHR '':'', digitsN 2, optSeconds, Eol]]"

definition dateKeywords :: "string list" where
  "dateKeywords =
     [''date'', ''time'', ''when'', ''timestamp'', ''created'', ''updated'',
      ''birth'', ''start'', ''end'', ''schedule'']"

definition scaleKeywords :: "string list" where
  "scaleKeywords =
     [''rate'', ''rating'', ''scale'', ''score'', ''satisfaction'', ''likely'',
      ''likelihood'', ''agree'', ''important'', ''quality'', ''recommend'',
      ''how much'', ''extent'', ''strongly'', ''somewhat'', ''very'', ''extremely'',
      ''not at all'']"

definition numericKeywords :: "string list" where
  "numericKeywords =
     [''age'', ''income'', ''salary'', ''price'', ''cost'', ''amount'', ''number'',
      ''count'', ''quantity'']"

definition openEndedKeywords :: "string list" where
  "openEndedKeywords =
     [''comment'', ''feedback'', ''opinion'', ''explain'', ''describe'', ''why'',
      ''how'', ''other'', ''specify'', ''elaborate'', ''detail'', ''reason'',
      ''suggestion'', ''improvement'', ''additional'', ''anything else'', ''open'',
      ''text'']"

definition rankingKeywords :: "string list" where
  "rankingKeywords =
     [''rank'', ''ranking'', ''order'', ''priority'', ''preference'', ''choice'',
      ''1st'', ''2nd'', ''3rd'', ''_r1_'', ''_r2_'', ''_r3_'', ''_rank1'', ''_rank2'',
      ''_rank3'']"

definition binaryPatterns :: "string list list" where
  "binaryPatterns =
     [[''yes'', ''no''], [''y'', ''n''], [''true'', ''false''], [''1'', ''0''],
      [''male'', ''female''], [''agree'', ''disagree''], [''pass'', ''fail''],
      [''on'', ''off''], [''enabled'', ''disabled''], [''active'', ''inactive'']]"

text \<open>\<open>keywords.some(keyword => lowerHeader.includes(keyword))\<close>.\<close>

definition hasKeyword :: "string list \<Rightarrow> string \<Rightarrow> bool" where
  "hasKeyword keywords header = list_ex (\<lambda>keyword. includesStr (toLowerCase header) keyword) keywords"

text \<open>The cleaned sample: trimmed texts without blanks and placeholders, at most \<open>sampleSize\<close>.\<close>

definition cleanSample :: "cell list \<Rightarrow> nat \<Rightarrow> string list" where
  "cleanSample vals sampleSize =
     take sampleSize
       (filter (\<lambda>v. v \<noteq> [] \<and> v \<noteq> ''null'' \<and> v \<noteq> ''undefined'' \<and> v \<noteq> ''N/A'' \<and> v \<noteq> ''n/a'')
               (map (\<lambda>v. trim (cellText (Some v))) vals))"

text \<open>
  The values that look like a date or time: one of the patterns matches, or the host's
  \<open>new Date(v)\<close> is a valid date whose year is in 1900..2100. \<open>dateYear v\<close> is the year of
  \<open>new Date(v)\<close>, or \<open>None\<close> when the date is invalid.
\<close>

definition dateMatches :: "(string \<Rightarrow> int option) \<Rightarrow> string list \<Rightarrow> string list" where
  "dateMatches dateYear cleanValues =
     filter (\<lambda>v. list_ex (\<lambda>pattern. matchStart pattern v \<noteq> None) datePatterns \<or>
                 (case dateYear v of Some y \<Rightarrow> y \<ge> 1900 \<and> y \<le> 2100 | None \<Rightarrow> False))
            cleanValues"

text \<open>\<open>uniqueCount / totalCount\<close>.\<close>

definition uniqueRatio :: "string list \<Rightarrow> rat" where
  "uniqueRatio cleanValues = of_nat (length (remdups cleanValues)) / of_nat (length cleanValues)"

text \<open>
  The values that are integers under the host's \<open>Number\<close>:
  \<open>!isNaN(v) && Number.isInteger(v)\<close>.
\<close>

definition integerOf :: "number \<Rightarrow> int option" where
  "integerOf v = (case v of Num x \<Rightarrow> (if x = of_int \<lfloor>x\<rfloor> then Some \<lfloor>x\<rfloor> else None) | NaN \<Rightarrow> None)"

definition numericSample :: "(string \<Rightarrow> number) \<Rightarrow> string list \<Rightarrow> int list" where
  "numericSample toNumber cleanValues = List.map_filter (\<lambda>v. integerOf (toNumber v)) cleanValues"

text \<open>\<open>Math.min(...xs)\<close> and \<open>Math.max(...xs)\<close> of a non-empty array of integers.\<close>

definition minOf :: "int list \<Rightarrow> int" where
  "minOf xs = foldl min (hd xs) (tl xs)"

definition maxOf :: "int list \<Rightarrow> int" where
  "maxOf xs = foldl max (hd xs) (tl xs)"

text \<open>\<open>Math.round\<close> of a non-negative ratio, as a text.\<close>

definition showRounded :: "rat \<Rightarrow> string" where
  "showRounded x = showNat (mathRound x)"

text \<open>
  \<open>analyzeQuestionType(header, values, sampleSize)\<close>: the cascade of eight stages, each
  returning on a match. \<open>toNumber\<close> and \<open>dateYear\<close> are the host's \<open>Number\<close> and \<open>Date\<close>.
  \<open>uniqueValues\<close> is used for its size and for membership only.
\<close>

definition analyzeQuestionType ::
  "(string \<Rightarrow> number) \<Rightarrow> (string \<Rightarrow> int option) \<Rightarrow> string \<Rightarrow> cell list \<Rightarrow> nat
     \<Rightarrow> QuestionTypeAnalysis" where
  "analyzeQuestionType toNumber dateYear header vals sampleSize =
     (let cleanValues = cleanSample vals sampleSize
      in if length cleanValues = 0
         then \<lparr>detectedType = SingleChoice, confidence = 1 / 10,
               reasoning = ''No valid data found''\<rparr>
         else
           let uniqueValues = remdups cleanValues;
               uniqueCount = length uniqueValues;
               totalCount = length cleanValues;
               uRatio = uniqueRatio cleanValues;
               hasDateKeywords = hasKeyword dateKeywords header;
               dates = dateMatches dateYear cleanValues;
               numericValues = numericSample toNumber cleanValues;
               lowest = minOf numericValues;
               highest = maxOf numericValues;
               range = highest - lowest;
               hasScaleKeywords = hasKeyword scaleKeywords header;
               hasNumericKeywords = hasKeyword numericKeywords header;
               hasOpenEndedKeywords = hasKeyword openEndedKeywords header;
               hasRankingKeywords = hasKeyword rankingKeywords header;
               avgLength = (of_nat (sum_list (map length cleanValues)) / of_nat (length cleanValues) :: rat);
               longResponseRatio =
                 (of_nat (length (filter (\<lambda>v. length v > 20) cleanValues)) / of_nat totalCount
                    :: rat);
               multiChoiceIndicators =
                 filter (\<lambda>v. toLowerCase v \<in> set [''1'', ''0'', ''yes'', ''no'', ''true'', ''false'',
                                                      ''selected'', ''x''])
                        cleanValues
           in if of_nat (length dates) > of_nat totalCount * (6 / 10 :: rat) \<and>
                 (hasDateKeywords \<or> uRatio > 7 / 10)
              then \<lparr>detectedType = Date,
                    confidence = (if hasDateKeywords then 95 / 100 else 8 / 10),
                    reasoning = showNat (length dates) @ ''/'' @ showNat totalCount
                      @ '' values match date/time patterns''
                      @ (if hasDateKeywords then '' with date keywords'' else [])\<rparr>
              else if uniqueCount = 2 \<and>
                      (list_ex (\<lambda>pattern. list_all (\<lambda>p. p \<in> set (map toLowerCase uniqueValues)) pattern)
                               binaryPatterns \<or>
                       includesStr (toLowerCase header) ''yes/no'' \<or>
                       includesStr (toLowerCase header) ''true/false'')
              then \<lparr>detectedType = Binary, confidence = 95 / 100,
                    reasoning = ''Two distinct values matching binary patterns''\<rparr>
              else if of_nat (length numericValues) > of_nat totalCount * (8 / 10 :: rat) \<and>
                      ((lowest = 1 \<and> highest \<le> 10 \<and> range \<le> 9) \<or>
                       (lowest = 0 \<and> highest \<le> 10 \<and> range \<le> 10)) \<and>
                      (hasScaleKeywords \<or> uniqueCount \<le> 11)
              then \<lparr>detectedType = Scale,
                    confidence = (if hasScaleKeywords then 9 / 10 else 75 / 100),
                    reasoning = ''Numeric range '' @ showInt lowest @ ''-'' @ showInt highest
                      @ '' with ''
                      @ (if hasScaleKeywords then ''scale keywords'' else ''limited unique values'')\<rparr>
              else if of_nat (length numericValues) > of_nat totalCount * (8 / 10 :: rat) \<and>
                      (range > 20 \<or> hasNumericKeywords \<or> uniqueCount > 15)
              then \<lparr>detectedType = Numeric, confidence = 8 / 10,
                    reasoning = ''Numeric values with ''
                      @ (if hasNumericKeywords then ''numeric keywords'' else ''wide range'')
                      @ '' ('' @ showInt lowest @ ''-'' @ showInt highest @ '')''\<rparr>
              else if uRatio > 7 / 10 \<and>
                      (avgLength > 15 \<or> longResponseRatio > 3 / 10 \<or> hasOpenEndedKeywords) \<and>
                      of_nat (length dates) < of_nat totalCount * (3 / 10 :: rat)
              then \<lparr>detectedType = OpenEnded,
                    confidence = (if hasOpenEndedKeywords then 9 / 10
                                  else if avgLength > 30 then 85 / 100 else 75 / 100),
                    reasoning = ''High uniqueness ('' @ showRounded (uRatio * 100) @ ''%) with ''
                      @ (if hasOpenEndedKeywords then ''open-ended keywords'' else ''long responses'')
                      @ '' (avg: '' @ showRounded avgLength @ '' chars)''\<rparr>
              else if of_nat (length numericValues) > of_nat totalCount * (6 / 10 :: rat) \<and>
                      (hasRankingKeywords \<or> (lowest \<ge> 1 \<and> highest \<le> 10 \<and> uniqueCount \<le> 10))
              then \<lparr>detectedType = Ranking, confidence = 85 / 100,
                    reasoning = (if hasRankingKeywords then ''Ranking keywords'' else ''Ranking pattern'')
                      @ '' with numeric range '' @ showInt lowest @ ''-'' @ showInt highest\<rparr>
              else if of_nat (length multiChoiceIndicators) > of_nat totalCount * (8 / 10 :: rat) \<and>
                      uniqueCount \<le> 4
              then \<lparr>detectedType = MultipleChoice, confidence = 8 / 10,
                    reasoning = ''Binary indicators suggesting multiple choice option''\<rparr>
              else if of_nat uniqueCount \<le> min 20 (of_nat totalCount * (5 / 10 :: rat))
              then \<lparr>detectedType = SingleChoice,
                    confidence = (if uniqueCount \<le> 10 then 7 / 10 else 6 / 10),
                    reasoning = ''Limited unique values ('' @ showNat uniqueCount
                      @ '') suggesting categorical data''\<rparr>
              else \<lparr>detectedType = SingleChoice, confidence = 4 / 10,
                    reasoning = ''Default classification - '' @ showNat uniqueCount
                      @ '' unique values from '' @ showNat totalCount @ '' responses''\<rparr>)"

text \<open>
  A sample for the date stage: five cells under the header \<open>Visit date\<close>, three of them
  dates. The host's \<open>Date\<close> is consulted only for the two other cells, which it does not
  parse.
\<close>

definition scenarioDateValues :: "cell list" where
  "scenarioDateValues =
     [CStr ''2024-01-01'', CStr ''2024-01-02'', CStr ''2024-01-03'', CStr ''n.a.'',
      CStr ''unknown'']"

definition noDate :: "string \<Rightarrow> int option" where
  "noDate s = None"

definition scenarioAllDates :: "cell list" where
  "scenarioAllDates = [CStr ''2024-01-01'', CStr ''2024-01-02'', CStr ''2024-01-03'']"

section \<open>utils/openEndCoding.ts: the class OpenEndCoder\<close>

record CodingSettings =
  minCategorySize :: int
  maxCategories :: int
  similarityThreshold :: real
  useSemanticClustering :: bool
  excludeShortResponses :: bool
  minResponseLength :: int

text \<open>
  A preprocessed response, \<open>{text, originalIndex}\<close>; the field \<open>text\<close> is \<open>responseText\<close>.
\<close>

record CleanResponse =
  responseText :: string
  originalIndex :: nat

text \<open>
  \<open>OpenEndCategory\<close> and \<open>OpenEndResponse\<close>. The fields \<open>id\<close>, \<open>name\<close>, \<open>keywords\<close>,
  \<open>text\<close> and \<open>confidence\<close> of the source carry the prefix of their record here.
\<close>

record OpenEndCategory =
  categoryIdOf :: string
  categoryName :: string
  description :: string
  categoryKeywords :: "string list"
  sampleResponses :: "string list"
  responseCount :: nat
  categoryConfidence :: rat

record OpenEndResponse =
  responseId :: string
  codedText :: string
  categoryId :: string
  responseConfidence :: rat
  rowIndex :: nat

record OpenEndCoding =
  questionColumn :: string
  responses :: "OpenEndResponse list"
  categories :: "OpenEndCategory list"
  settings :: CodingSettings

definition preprocessResponses :: "CodingSettings \<Rightarrow> string list \<Rightarrow> CleanResponse list" where
  "preprocessResponses cfg rs =
     filter (\<lambda>item.
               nonBlank (responseText item) \<and>
               \<not> (excludeShortResponses cfg \<and>
                  int (length (responseText item)) < minResponseLength cfg))
            (map (\<lambda>(t, index). \<lparr>responseText = trim t, originalIndex = index\<rparr>)
                 (zip rs [0 ..< length rs]))"

definition stopWords :: "string list" where
  "stopWords =
     [''the'', ''a'', ''an'', ''and'', ''or'', ''but'', ''in'', ''on'', ''at'', ''to'',
      ''for'', ''of'', ''with'', ''by'', ''is'', ''are'', ''was'', ''were'', ''be'',
      ''been'', ''have'', ''has'', ''had'', ''do'', ''does'', ''did'', ''will'',
      ''would'', ''could'', ''should'', ''may'', ''might'', ''can'', ''this'', ''that'',
      ''these'', ''those'']"

definition isStopWord :: "string \<Rightarrow> bool" where
  "isStopWord word = (word \<in> set stopWords)"

text \<open>The class \<open>\w\<close>.\<close>

definition isWordChar :: "char \<Rightarrow> bool" where
  "isWordChar c =
     (c \<in> set ''abcdefghijklmnopqrstuvwxyzABCDEFGHIJKLMNOPQRSTUVWXYZ0123456789_'')"

text \<open>
  \<open>s.split(/\s+/)\<close>: the pieces between the runs of white space, an empty piece at either
  end when the string starts or ends with white space.
\<close>

function splitSpaces :: "string \<Rightarrow> string \<Rightarrow> string list" where
  "splitSpaces acc [] = [rev acc]"
| "splitSpaces acc (c # cs) =
     (if isSpace c then rev acc # splitSpaces [] (dropWhile isSpace cs)
      else splitSpaces (c # acc) cs)"
  by pat_completeness auto
termination
  by (relation "measure (\<lambda>(acc, s). length s)")
     (auto simp: less_Suc_eq_le length_dropWhile_le)

definition tokenize :: "string \<Rightarrow> string list" where
  "tokenize t =
     filter (\<lambda>word. \<not> isStopWord word)
       (filter (\<lambda>word. length word > 2)
          (splitSpaces []
             (map (\<lambda>c. if isWordChar c \<or> isSpace c then c else CHR '' '') (toLowerCase t))))"

text \<open>
  A \<open>Map\<close> from strings to counts, filled by \<open>set(k, (get(k) || 0) + 1)\<close>: the keys stay
  in the order of their first insertion.
\<close>

definition bumpCount :: "(string \<times> nat) list \<Rightarrow> string \<Rightarrow> (string \<times> nat) list" where
  "bumpCount counts k =
     (if k \<in> fst ` set counts
      then map (\<lambda>(k', n). if k' = k then (k', n + 1) else (k', n)) counts
      else counts @ [(k, 1)])"

definition countAll :: "string list \<Rightarrow> (string \<times> nat) list" where
  "countAll ks = foldl bumpCount [] ks"

text \<open>The 1-, 2- and 3-grams of a text, in the order of the loops of \<open>extractKeyPhrases\<close>.\<close>

definition ngrams :: "string list \<Rightarrow> string list" where
  "ngrams ws =
     concat (map (\<lambda>n. map (\<lambda>i. joinWith '' '' (take n (drop i ws)))
                          [0 ..< length ws + 1 - n])
                 [1, 2, 3])"

definition extractKeyPhrases :: "string list \<Rightarrow> (string \<times> nat) list" where
  "extractKeyPhrases texts =
     take 50
       (sort_key (\<lambda>(phrase, frequency). - int frequency)
          (filter (\<lambda>(phrase, frequency). frequency \<ge> 2)
             (countAll (concat (map (\<lambda>t. ngrams (tokenize t)) texts)))))"

definition themeGroups :: "(string \<times> string list \<times> string) list" where
  "themeGroups =
     [(''Quality & Performance'',
       [''quality'', ''performance'', ''good'', ''bad'', ''excellent'', ''poor'',
        ''reliable'', ''durable'', ''effective''],
       ''Comments about product or service quality and performance''),
      (''Price & Value'',
       [''price'', ''cost'', ''expensive'', ''cheap'', ''affordable'', ''value'',
        ''money'', ''budget'', ''worth''],
       ''Comments about pricing, cost, and value for money''),
      (''Customer Service'',
       [''service'', ''staff'', ''customer'', ''support'', ''help'', ''friendly'',
        ''rude'', ''professional'', ''helpful''],
       ''Comments about customer service and staff interactions''),
      (''Speed & Efficiency'',
       [''fast'', ''slow'', ''quick'', ''time'', ''wait'', ''delay'', ''speed'',
        ''efficient'', ''prompt'', ''immediate''],
       ''Comments about speed, timing, and efficiency''),
      (''Convenience & Ease'',
       [''convenient'', ''easy'', ''simple'', ''difficult'', ''complicated'',
        ''user-friendly'', ''accessible''],
       ''Comments about convenience and ease of use''),
      (''Location & Accessibility'',
       [''location'', ''close'', ''near'', ''far'', ''parking'', ''distance'',
        ''accessible'', ''convenient''],
       ''Comments about location and accessibility''),
      (''Product Features'',
       [''feature'', ''function'', ''design'', ''style'', ''variety'', ''selection'',
        ''options'', ''capability''],
       ''Comments about product features and functionality''),
      (''Communication'',
       [''communication'', ''information'', ''clear'', ''confusing'', ''explanation'',
        ''instructions''],
       ''Comments about communication and information clarity'')]"

text \<open>An identified theme: name, keywords, description and confidence.\<close>

type_synonym theme = "string \<times> string list \<times> string \<times> rat"

definition identifyThemes :: "(string \<times> nat) list \<Rightarrow> theme list" where
  "identifyThemes phrases =
     sort_key (\<lambda>(themeName, kws, descr, conf). - conf)
       (List.map_filter
          (\<lambda>(themeName, kws, descr).
             let matchingPhrases =
                   filter (\<lambda>(phrase, frequency). list_ex (\<lambda>keyword. includesStr phrase keyword) kws)
                          phrases
             in if length matchingPhrases > 0
                then Some (themeName, kws, descr,
                           min (of_nat (sum_list (map snd matchingPhrases))
                                  / of_nat (length phrases)) 1)
                else None)
          themeGroups)"

definition matchesTheme :: "string \<Rightarrow> string list \<Rightarrow> bool" where
  "matchesTheme t kws = list_ex (\<lambda>keyword. includesStr (toLowerCase t) (toLowerCase keyword)) kws"

definition keywordBasedClustering :: "CodingSettings \<Rightarrow> CleanResponse list \<Rightarrow> OpenEndCategory list" where
  "keywordBasedClustering cfg rs =
     (let phrases = extractKeyPhrases (map responseText rs);
          themes = identifyThemes phrases;
          themed =
            List.map_filter
              (\<lambda>((themeName, kws, descr, conf), index).
                 let categoryResponses = filter (\<lambda>r. matchesTheme (responseText r) kws) rs
                 in if int (length categoryResponses) \<ge> minCategorySize cfg
                    then Some \<lparr>categoryIdOf = ''cat_'' @ showNat index,
                               categoryName = themeName,
                               description = descr,
                               categoryKeywords = kws,
                               sampleResponses = map responseText (take 5 categoryResponses),
                               responseCount = length categoryResponses,
                               categoryConfidence = conf\<rparr>
                    else None)
              (zip themes [0 ..< length themes]);
          uncategorizedResponses =
            filter (\<lambda>r. \<not> list_ex (\<lambda>cat. matchesTheme (responseText r) (categoryKeywords cat)) themed) rs
      in if int (length uncategorizedResponses) \<ge> minCategorySize cfg
         then themed @
              [\<lparr>categoryIdOf = ''cat_other'',
                categoryName = ''Other/Miscellaneous'',
                description = ''Responses that did not fit into other categories'',
                categoryKeywords = [],
                sampleResponses = map responseText (take 5 uncategorizedResponses),
                responseCount = length uncategorizedResponses,
                categoryConfidence = 1 / 2\<rparr>]
         else themed)"

section \<open>utils/openEndCoding.ts: semantic clustering\<close>

text \<open>Arithmetic on numbers that may be \<open>NaN\<close>.\<close>

definition numTimes :: "number \<Rightarrow> number \<Rightarrow> number" where
  "numTimes a b = (case (a, b) of (Num x, Num y) \<Rightarrow> Num (x * y) | _ \<Rightarrow> NaN)"

definition numPlus :: "number \<Rightarrow> number \<Rightarrow> number" where
  "numPlus a b = (case (a, b) of (Num x, Num y) \<Rightarrow> Num (x + y) | _ \<Rightarrow> NaN)"

definition buildVocabulary :: "string list \<Rightarrow> string list" where
  "buildVocabulary documents =
     sort (map fst
             (filter (\<lambda>(word, n). n \<ge> 2 \<and> (of_nat n :: rat) \<le> of_nat (length documents) * (8 / 10))
                     (countAll (concat (map tokenize documents)))))"

text \<open>
  One row of the TF-IDF matrix. A document without tokens has \<open>tf = 0 / 0\<close>, which is
  \<open>NaN\<close>, for every term.
\<close>

definition tfidfVector :: "string list \<Rightarrow> string list \<Rightarrow> string \<Rightarrow> number list" where
  "tfidfVector documents vocabulary doc =
     (let ws = tokenize doc
      in map (\<lambda>term.
                let tf = (if length ws = 0 then NaN
                          else Num (real (length (filter (\<lambda>w. w = term) ws)) / real (length ws)));
                    df = length (filter (\<lambda>d. term \<in> set (tokenize d)) documents);
                    idf = Num (ln (real (length documents) / real (df + 1)))
                in numTimes tf idf)
             vocabulary)"

definition calculateTFIDF :: "string list \<Rightarrow> string list \<Rightarrow> number list list" where
  "calculateTFIDF documents vocabulary = map (tfidfVector documents vocabulary) documents"

text \<open>
  \<open>cosineSimilarity\<close>; \<open>vec2[i]\<close> past the end of \<open>vec2\<close> is \<open>undefined\<close>, which makes the
  sums \<open>NaN\<close>. A magnitude that is \<open>NaN\<close> fails the test \<open>magnitude > 0\<close>.
\<close>

definition cosineSimilarity :: "number list \<Rightarrow> number list \<Rightarrow> number" where
  "cosineSimilarity vec1 vec2 =
     (let at2 = (\<lambda>i. case elemAt vec2 i of Some v \<Rightarrow> v | None \<Rightarrow> NaN);
          dotProduct = foldl (\<lambda>acc i. numPlus acc (numTimes (vec1 ! i) (at2 i)))
                             (Num 0) [0 ..< length vec1];
          norm1 = foldl (\<lambda>acc i. numPlus acc (numTimes (vec1 ! i) (vec1 ! i)))
                        (Num 0) [0 ..< length vec1];
          norm2 = foldl (\<lambda>acc i. numPlus acc (numTimes (at2 i) (at2 i)))
                        (Num 0) [0 ..< length vec1]
      in case (norm1, norm2) of
           (Num n1, Num n2) \<Rightarrow>
             if sqrt n1 * sqrt n2 > 0
             then (case dotProduct of Num d \<Rightarrow> Num (d / (sqrt n1 * sqrt n2)) | NaN \<Rightarrow> NaN)
             else Num 0
         | _ \<Rightarrow> Num 0)"

text \<open>\<open>allResponses.findIndex(r => r.originalIndex === k)\<close>.\<close>

definition findOriginal :: "CleanResponse list \<Rightarrow> nat \<Rightarrow> nat option" where
  "findOriginal allResponses k = indexOf (map originalIndex allResponses) k"

definition calculateClusterDistance ::
  "CleanResponse list \<Rightarrow> CleanResponse list \<Rightarrow> number list list \<Rightarrow> CleanResponse list \<Rightarrow> number" where
  "calculateClusterDistance cluster1 cluster2 tfidfMatrix allResponses =
     (let sims =
            List.map_filter
              (\<lambda>(r1, r2).
                 case (findOriginal allResponses (originalIndex r1),
                       findOriginal allResponses (originalIndex r2)) of
                   (Some idx1, Some idx2) \<Rightarrow>
                     Some (cosineSimilarity
                             (case elemAt tfidfMatrix idx1 of Some v \<Rightarrow> v | None \<Rightarrow> [])
                             (case elemAt tfidfMatrix idx2 of Some v \<Rightarrow> v | None \<Rightarrow> []))
                 | _ \<Rightarrow> None)
              (concat (map (\<lambda>r1. map (\<lambda>r2. (r1, r2)) cluster2) cluster1));
          totalDistance = foldl numPlus (Num 0) sims
      in if length sims > 0
         then (case totalDistance of Num t \<Rightarrow> Num (1 - t / real (length sims)) | NaN \<Rightarrow> NaN)
         else Num 1)"

text \<open>
  The scan for the closest pair of clusters: row-major over \<open>i < j\<close>, a later pair
  replaces the best one only with a strictly smaller distance. \<open>None\<close> is the initial
  \<open>minDistance = Infinity\<close>.
\<close>

definition closestPair ::
  "CleanResponse list list \<Rightarrow> number list list \<Rightarrow> CleanResponse list
     \<Rightarrow> (real \<times> nat \<times> nat) option" where
  "closestPair clusters tfidfMatrix allResponses =
     foldl (\<lambda>best (i, j).
              case calculateClusterDistance (clusters ! i) (clusters ! j) tfidfMatrix allResponses of
                NaN \<Rightarrow> best
              | Num d \<Rightarrow>
                  (case best of
                     None \<Rightarrow> Some (d, i, j)
                   | Some (minDistance, bi, bj) \<Rightarrow>
                       if d < minDistance then Some (d, i, j) else best))
           None
           (concat (map (\<lambda>i. map (\<lambda>j. (i, j)) [i + 1 ..< length clusters])
                        [0 ..< length clusters]))"

text \<open>\<open>clusters[i] = [...clusters[i], ...clusters[j]]; clusters.splice(j, 1)\<close>.\<close>

definition mergeClusters :: "'a list list \<Rightarrow> nat \<Rightarrow> nat \<Rightarrow> 'a list list" where
  "mergeClusters clusters i j =
     (let merged = clusters[i := clusters ! i @ clusters ! j]
      in take j merged @ drop (Suc j) merged)"

text \<open>
  The pair that \<open>closestPair\<close> returns is one of the scanned pairs, so merging it removes
  one cluster; this is what ends the loop of \<open>hierarchicalClustering\<close>.
\<close>

lemma closestPair_bounds:
  assumes "closestPair clusters tfidfMatrix allResponses = Some (d, i, j)"
  shows "i < j \<and> j < length clusters"
proof -
  define step where "step = (\<lambda>best (i, j).
              case calculateClusterDistance (clusters ! i) (clusters ! j) tfidfMatrix allResponses of
                NaN \<Rightarrow> best
              | Num d \<Rightarrow>
                  (case best of
                     None \<Rightarrow> Some (d, i, j)
                   | Some (minDistance, bi, bj) \<Rightarrow>
                       if d < minDistance then Some (d, i, j) else best))"
  define ok where "ok = (\<lambda>best :: (real \<times> nat \<times> nat) option.
              case best of None \<Rightarrow> True | Some (d, i, j) \<Rightarrow> i < j \<and> j < length clusters)"
  have inv: "ok (foldl step best ps)"
    if "ok best" and "\<forall>(i, j) \<in> set ps. i < j \<and> j < length clusters" for best ps
    using that
  proof (induction ps arbitrary: best)
    case Nil
    then show ?case by simp
  next
    case (Cons p ps)
    have "ok (step best p)"
      using Cons.prems
      by (cases p) (auto simp: step_def ok_def split: number.splits option.splits)
    then show ?case using Cons by simp
  qed
  have "ok (foldl step None
              (concat (map (\<lambda>i. map (\<lambda>j. (i, j)) [i + 1 ..< length clusters])
                           [0 ..< length clusters])))"
    by (rule inv) (auto simp: ok_def)
  then show ?thesis
    using assms by (simp add: closestPair_def step_def ok_def)
qed

lemma length_mergeClusters:
  "j < length clusters \<Longrightarrow> length (mergeClusters clusters i j) < length clusters"
  by (simp add: mergeClusters_def Let_def)

text \<open>
  The \<open>while\<close> loop of \<open>hierarchicalClustering\<close>. With no pair of clusters at a distance
  that is a number, \<open>minDistance\<close> is still \<open>Infinity\<close> and the loop breaks.
\<close>

function clusterLoop ::
  "CodingSettings \<Rightarrow> number list list \<Rightarrow> CleanResponse list \<Rightarrow> CleanResponse list list
     \<Rightarrow> CleanResponse list list" where
  "clusterLoop cfg tfidfMatrix allResponses clusters =
     (if int (length clusters) > maxCategories cfg
      then (case closestPair clusters tfidfMatrix allResponses of
              None \<Rightarrow> clusters
            | Some (minDistance, i, j) \<Rightarrow>
                if minDistance > similarityThreshold cfg then clusters
                else clusterLoop cfg tfidfMatrix allResponses (mergeClusters clusters i j))
      else clusters)"
  by pat_completeness auto
termination
  by (relation "measure (\<lambda>(cfg, tfidfMatrix, allResponses, clusters). length clusters)")
     (auto dest!: closestPair_bounds intro: length_mergeClusters)

definition hierarchicalClustering ::
  "CodingSettings \<Rightarrow> number list list \<Rightarrow> CleanResponse list \<Rightarrow> CleanResponse list list" where
  "hierarchicalClustering cfg tfidfMatrix rs =
     filter (\<lambda>cluster. int (length cluster) \<ge> minCategorySize cfg)
            (clusterLoop cfg tfidfMatrix rs (map (\<lambda>r. [r]) rs))"

definition extractClusterKeywords :: "string list \<Rightarrow> string list" where
  "extractClusterKeywords texts =
     map fst
       (take 10
          (sort_key (\<lambda>(word, n). - int n)
             (filter (\<lambda>(word, n). n \<ge> 2) (countAll (concat (map tokenize texts))))))"

definition themeMap :: "(string \<times> string) list" where
  "themeMap =
     [(''quality'', ''Quality & Performance''), (''price'', ''Price & Value''),
      (''service'', ''Customer Service''), (''fast'', ''Speed & Efficiency''),
      (''location'', ''Location & Access''), (''easy'', ''Convenience & Ease'')]"

text \<open>\<open>k.charAt(0).toUpperCase() + k.slice(1)\<close>.\<close>

definition capitalize :: "string \<Rightarrow> string" where
  "capitalize k = toUpperCase (take 1 k) @ drop 1 k"

definition generateCategoryName :: "string list \<Rightarrow> string list \<Rightarrow> string" where
  "generateCategoryName kws sampleTexts =
     (if length kws = 0 then ''Miscellaneous''
      else
        let topKeywords = take 3 kws
        in case find (\<lambda>(key, themeName). list_ex (\<lambda>keyword. includesStr keyword key) topKeywords)
                     themeMap of
             Some (key, themeName) \<Rightarrow> themeName
           | None \<Rightarrow> joinWith '' & '' (map capitalize topKeywords))"

definition clustersToCategories ::
  "CleanResponse list list \<Rightarrow> CleanResponse list \<Rightarrow> OpenEndCategory list" where
  "clustersToCategories clusters allResponses =
     map (\<lambda>(cluster, index).
            let kws = extractClusterKeywords (map responseText cluster)
            in \<lparr>categoryIdOf = ''semantic_cat_'' @ showNat index,
                categoryName = generateCategoryName kws (map responseText cluster),
                description = ''Auto-generated category based on semantic similarity'',
                categoryKeywords = kws,
                sampleResponses = map responseText (take 5 cluster),
                responseCount = length cluster,
                categoryConfidence = 8 / 10\<rparr>)
         (zip clusters [0 ..< length clusters])"

definition semanticClustering :: "CodingSettings \<Rightarrow> CleanResponse list \<Rightarrow> OpenEndCategory list" where
  "semanticClustering cfg rs =
     (let documents = map responseText rs;
          vocabulary = buildVocabulary documents;
          tfidfMatrix = calculateTFIDF documents vocabulary;
          clusters = hierarchicalClustering cfg tfidfMatrix rs
      in clustersToCategories clusters rs)"

definition generateCategories :: "CodingSettings \<Rightarrow> CleanResponse list \<Rightarrow> OpenEndCategory list" where
  "generateCategories cfg rs =
     (if useSemanticClustering cfg then semanticClustering cfg rs
      else keywordBasedClustering cfg rs)"

section \<open>utils/openEndCoding.ts: assignment\<close>

definition calculateCategoryScore :: "string \<Rightarrow> OpenEndCategory \<Rightarrow> rat" where
  "calculateCategoryScore t category =
     (let score = length (filter (\<lambda>keyword. includesStr (toLowerCase t) (toLowerCase keyword))
                                 (categoryKeywords category))
      in if length (categoryKeywords category) > 0
         then of_nat score / of_nat (length (categoryKeywords category))
         else 0)"

text \<open>
  The search of \<open>assignResponsesToCategories\<close> for one response: it starts from the last
  category (\<open>undefined\<close>, here \<open>None\<close>, when there is none) with score 0, and a category
  replaces the best one only with a strictly higher score.
\<close>

definition bestCategory :: "string \<Rightarrow> OpenEndCategory list \<Rightarrow> OpenEndCategory option \<times> rat" where
  "bestCategory t cats =
     foldl (\<lambda>(best, bestScore) category.
              let score = calculateCategoryScore t category
              in if score > bestScore then (Some category, score) else (best, bestScore))
           (elemAt cats (length cats - 1), 0) cats"

text \<open>Reading \<open>bestCategory.id\<close> of \<open>undefined\<close> throws a \<open>TypeError\<close>.\<close>

definition assignResponse :: "OpenEndCategory list \<Rightarrow> CleanResponse \<Rightarrow> error + OpenEndResponse" where
  "assignResponse cats response =
     (case bestCategory (responseText response) cats of
        (None, bestScore) \<Rightarrow> Inl TypeError
      | (Some category, bestScore) \<Rightarrow>
          Inr \<lparr>responseId = ''response_'' @ showNat (originalIndex response),
                codedText = responseText response,
                categoryId = categoryIdOf category,
                responseConfidence = bestScore,
                rowIndex = originalIndex response\<rparr>)"

fun assignResponsesToCategories ::
  "CleanResponse list \<Rightarrow> OpenEndCategory list \<Rightarrow> error + OpenEndResponse list" where
  "assignResponsesToCategories [] cats = Inr []"
| "assignResponsesToCategories (response # rest) cats =
     (case assignResponse cats response of
        Inl e \<Rightarrow> Inl e
      | Inr coded \<Rightarrow>
          (case assignResponsesToCategories rest cats of
             Inl e \<Rightarrow> Inl e
           | Inr others \<Rightarrow> Inr (coded # others)))"

definition codeResponses :: "CodingSettings \<Rightarrow> string list \<Rightarrow> string \<Rightarrow> error + OpenEndCoding" where
  "codeResponses cfg rs qColumn =
     (let cleanResponses = preprocessResponses cfg rs;
          cats = generateCategories cfg cleanResponses
      in case assignResponsesToCategories cleanResponses cats of
           Inl e \<Rightarrow> Inl e
         | Inr codedResponses \<Rightarrow>
             Inr \<lparr>questionColumn = qColumn, responses = codedResponses, categories = cats,
                  settings = cfg\<rparr>)"

text \<open>
  A batch of four responses coded with keyword theming and the default sizes.
\<close>

definition scenarioCodingSettings :: CodingSettings where
  "scenarioCodingSettings =
     \<lparr>minCategorySize = 1, maxCategories = 20, similarityThreshold = 0.5,
      useSemanticClustering = False, excludeShortResponses = False, minResponseLength = 5\<rparr>"

definition scenarioResponses :: "string list" where
  "scenarioResponses =
     [''The price is too high'', ''Good price and value'', ''Parking was hard'', ''null'']"

definition scenarioCategories :: "OpenEndCategory list" where
  "scenarioCategories =
     [\<lparr>categoryIdOf = ''cat_0'', categoryName = ''Price & Value'',
       description = ''Comments about pricing, cost, and value for money'',
       categoryKeywords =
         [''price'', ''cost'', ''expensive'', ''cheap'', ''affordable'', ''value'', ''money'',
          ''budget'', ''worth''],
       sampleResponses = [''The price is too high'', ''Good price and value''],
       responseCount = 2, categoryConfidence = 1\<rparr>,
      \<lparr>categoryIdOf = ''cat_other'', categoryName = ''Other/Miscellaneous'',
       description = ''Responses that did not fit into other categories'',
       categoryKeywords = [], sampleResponses = [''Parking was hard''],
       responseCount = 1, categoryConfidence = 1 / 2\<rparr>]"

definition scenarioCoded :: "OpenEndResponse list" where
  "scenarioCoded =
     [\<lparr>responseId = ''response_0'', codedText = ''The price is too high'',
       categoryId = ''cat_0'', responseConfidence = 1 / 9, rowIndex = 0\<rparr>,
      \<lparr>responseId = ''response_1'', codedText = ''Good price and value'',
       categoryId = ''cat_0'', responseConfidence = 2 / 9, rowIndex = 1\<rparr>,
      \<lparr>responseId = ''response_2'', codedText = ''Parking was hard'',
       categoryId = ''cat_other'', responseConfidence = 0, rowIndex = 2\<rparr>]"


section \<open>Properties of the significance test\<close>

lemma horner_upper:
  fixes t :: real
  assumes "0 \<le> t" "t \<le> 1"
  shows "t * (0.3193815 + t * (-0.3565638 + t * (1.781478 + t * (-1.821256 + t * 1.330274)))) \<le> 1.7442957"
proof -
  define a4 where "a4 = -1.821256 + t * 1.330274"
  define a3 where "a3 = 1.781478 + t * a4"
  define a2 where "a2 = -0.3565638 + t * a3"
  define a1 where "a1 = 0.3193815 + t * a2"
  have "a4 \<le> 0" using assms by (simp add: a4_def)
  then have "t * a4 \<le> 0" using assms by (simp add: mult_nonneg_nonpos)
  then have a3: "a3 \<le> 1.781478" by (simp add: a3_def algebra_simps)
  have "t * a3 \<le> t * 1.781478" using a3 assms by (intro mult_left_mono) auto
  then have "t * a3 \<le> 1.781478" using assms by simp
  then have a2: "a2 \<le> 1.4249142" by (simp add: a2_def algebra_simps)
  have "t * a2 \<le> t * 1.4249142" using a2 assms by (intro mult_left_mono) auto
  then have "t * a2 \<le> 1.4249142" using assms by simp
  then have a1: "a1 \<le> 1.7442957" by (simp add: a1_def algebra_simps)
  have "t * a1 \<le> t * 1.7442957" using a1 assms by (intro mult_left_mono) auto
  then have "t * a1 \<le> 1.7442957" using assms by simp
  then show ?thesis by (simp add: a1_def a2_def a3_def a4_def)
qed

lemma two_tailed_upper:
  assumes "0 < x"
  shows "2 * (1 - normalCDF x) \<le> 2 * (0.3989423 * exp (- x * x / 2) * 1.7442957)"
proof -
  define t where "t = 1 / (1 + 0.2316419 * \<bar>x\<bar>)"
  have t0: "0 \<le> t" and t1: "t \<le> 1" using assms by (simp_all add: t_def)
  define q where "q = t * (0.3193815 + t * (-0.3565638 + t * (1.781478 + t * (-1.821256 + t * 1.330274))))"
  have q: "q \<le> 1.7442957" unfolding q_def by (rule horner_upper [OF t0 t1])
  have eq: "1 - normalCDF x = 0.3989423 * exp (- x * x / 2) * q"
    using assms by (simp add: normalCDF_def Let_def t_def q_def mult.assoc)
  have "0.3989423 * exp (- x * x / 2) * q \<le> 0.3989423 * exp (- x * x / 2) * 1.7442957"
    using q by (intro mult_left_mono) auto
  then show ?thesis by (simp only: eq mult_le_cancel_left_pos)
qed

lemma exp_minus_upper: "0 \<le> (y::real) \<Longrightarrow> exp (- y) \<le> 1 / (1 + y)"
proof -
  assume y: "0 \<le> y"
  have "1 + y \<le> exp y" by (rule exp_ge_add_one_self)
  then have "1 / exp y \<le> 1 / (1 + y)" using y by (intro divide_left_mono) auto
  then show ?thesis by (simp add: exp_minus inverse_eq_divide)
qed

lemma performSignificanceTests_length:
  "length (performSignificanceTests m bases alpha) = length m"
  by (simp add: performSignificanceTests_def)

lemma performSignificanceTests_row_length:
  "i < length m \<Longrightarrow>
   length (performSignificanceTests m bases alpha ! i) = length (m ! i)"
  by (simp add: performSignificanceTests_def)

lemma performSignificanceTests_cell:
  "i < length m \<Longrightarrow> j < length (m ! i) \<Longrightarrow>
   performSignificanceTests m bases alpha ! i ! j =
     (if j = 0 then ''''
      else let r = zTestForProportions (m ! i ! j) (elemAt bases j)
                     (m ! i ! 0) (elemAt bases 0) alpha
           in if isSignificant r \<and> comparisonType r = Higher then flagHigher
              else if isSignificant r then flagLower
              else '''')"
  by (simp add: performSignificanceTests_def flagCell_def Let_def)

lemma standardError_example: "standardError 0 100 100 100 = Num (sqrt (1 / 200))"
  by (simp add: standardError_def Let_def)

lemma zTest_example_lower:
  "isSignificant (zTestForProportions 0 (Some 100) 100 (Some 100) 0.05) \<and>
   comparisonType (zTestForProportions 0 (Some 100) 100 (Some 100) 0.05) = Lower"
proof -
  define x :: real where "x = 1 / sqrt (1 / 200)"
  have xpos: "0 < x" by (simp add: x_def)
  have xx: "x * x = 200" by (simp add: x_def real_sqrt_divide)
  have "exp (- x * x / 2) = exp (- 100)" using xx by (simp add: mult.assoc)
  also have "\<dots> \<le> 1 / (1 + 100)" using exp_minus_upper [of 100] by simp
  finally have e: "exp (- x * x / 2) \<le> 1 / 101" by simp
  have "2 * (1 - normalCDF x) \<le> 2 * (0.3989423 * exp (- x * x / 2) * 1.7442957)"
    by (rule two_tailed_upper [OF xpos])
  also have "\<dots> \<le> 2 * (0.3989423 * (1 / 101) * 1.7442957)"
    using e by simp
  also have "\<dots> < 0.05" by simp
  finally have p: "2 * (1 - normalCDF x) < 0.05" .
  have z: "\<bar>(0 - 1) / sqrt (1 / 200)\<bar> = x" by (simp add: x_def)
  show ?thesis
    using p z by (simp add: zTestForProportions_def standardError_example Let_def real_sqrt_divide x_def)
qed

text \<open>
  Claim C3. \<open>performSignificanceTests\<close> keeps the shape of its input and leaves column 0
  empty, but the flag it writes for a significantly lower cell is not the arrow U+2193:
  on the matrix \<open>[[100, 0]]\<close> with bases \<open>[100, 100]\<close> the second cell (0 of 100 against
  100 of 100) is significantly lower, and the flag written is the mis-encoded literal of the
  source file.
\<close>

theorem performSignificanceTests_lower_flag_literal:
  "performSignificanceTests [[100, 0]] [100, 100] 0.05 = [['''', flagLower]] \<and>
   performSignificanceTests [[100, 0]] [100, 100] 0.05 \<noteq> [['''', downArrow]]"
proof -
  have "flagCell [100, 0] [100, 100] 0.05 (Suc 0) = flagLower"
    using zTest_example_lower by (simp add: flagCell_def elemAt_def Let_def)
  moreover have "flagCell [100, 0] [100, 100] 0.05 0 = ''''"
    by (simp add: flagCell_def)
  moreover have "[0 ..< length [100::nat, 0]] = [0, Suc 0]"
    by (simp add: upt_rec)
  ultimately have "performSignificanceTests [[100, 0]] [100, 100] 0.05 = [['''', flagLower]]"
    by (simp add: performSignificanceTests_def)
  moreover have "flagLower \<noteq> downArrow"
    by (simp add: flagLower_def downArrow_def)
  ultimately show ?thesis by simp
qed



section \<open>Ranking battery detection\<close>











section \<open>The shape of the results and the dispatch of generateCrossTabs\<close>

lemma length_percentRow: "length (percentRow absRow bases n) = Suc n"
  by (simp add: percentRow_def)

lemma length_allBannerHeaders:
  "length (allBannerHeaders dataMap bannerVars) = Suc (length (bannerColumns dataMap bannerVars))"
  by (simp add: allBannerHeaders_def)

lemma length_regularBases:
  "length (regularBases dataMap tableVar bannerVars) = Suc (length (bannerColumns dataMap bannerVars))"
  by (simp add: regularBases_def)

lemma length_regularCounts:
  "length (regularCounts dataMap tableVar bannerVars v) = Suc (length (bannerColumns dataMap bannerVars))"
  by (simp add: regularCounts_def)

lemma map_length_performSignificanceTests:
  "map length (performSignificanceTests m bases alpha) = map length m"
  by (simp add: performSignificanceTests_def comp_def)

lemma shape_openEnded:
  "createOpenEndedCrossTab dataMap tableVar bannerVars allHeaders dispName = Some r \<Longrightarrow>
   shapeInvariant r"
  by (auto simp: createOpenEndedCrossTab_def Let_def shapeInvariant_def
        map_length_performSignificanceTests length_percentRow length_allBannerHeaders
        comp_def list_all_iff split: if_splits prod.splits)

lemma shape_regular:
  assumes "createRegularCrossTab dataMap tableVar bannerVars qType allHeaders dispName = Some r"
  shows "shapeInvariant r"
proof (cases "qType = OpenEnded")
  case True
  then show ?thesis
    using assms shape_openEnded by (simp add: createRegularCrossTab_def)
next
  case False
  then show ?thesis
    using assms
    by (auto simp: createRegularCrossTab_def Let_def shapeInvariant_def
          map_length_performSignificanceTests length_percentRow length_allBannerHeaders
          length_regularBases length_regularCounts
          comp_def list_all_iff split: if_splits)
qed

lemma shape_multiSelect:
  "createMultiSelectCrossTab dataMap groupName bannerVars cols allHeaders dispName = Inr r \<Longrightarrow>
   shapeInvariant r"
  by (auto simp: createMultiSelectCrossTab_def Let_def shapeInvariant_def
        map_length_performSignificanceTests length_percentRow length_allBannerHeaders
        comp_def list_all_iff split: if_splits prod.splits)

lemma length_rankBases:
  "length (rankBases dataMap bannerVars rs) = Suc (length (bannerColumns dataMap bannerVars))"
  by (simp add: rankBases_def Let_def)

lemma rankSection_rows:
  assumes "list_all (\<lambda>row. length row = length bases) rows"
    and "(label, absRow, pctRow) \<in> set (rankSection opts bases label0 rows)"
  shows "length absRow = length bases \<and> length pctRow = length bases"
  using assms by (auto simp: rankSection_def list_all_iff set_zip split: if_splits)

lemma createRankingCrossTab_rows:
  "list_all (\<lambda>row. length row = length bases) (rank1Only (createRankingCrossTab dataMap rs bannerVars bases))"
  "list_all (\<lambda>row. length row = length bases) (rank2Only (createRankingCrossTab dataMap rs bannerVars bases))"
  "list_all (\<lambda>row. length row = length bases) (rank3Only (createRankingCrossTab dataMap rs bannerVars bases))"
  "list_all (\<lambda>row. length row = length bases) (rank1Plus2 (createRankingCrossTab dataMap rs bannerVars bases))"
  "list_all (\<lambda>row. length row = length bases) (rank1Plus2Plus3 (createRankingCrossTab dataMap rs bannerVars bases))"
  by (simp_all add: createRankingCrossTab_def Let_def list_all_iff)

lemma rankSections_rows:
  assumes "(label, absRow, pctRow) \<in> set (rankSections (createRankingCrossTab dataMap rs bannerVars bases) bases)"
  shows "length absRow = length bases \<and> length pctRow = length bases"
proof -
  note r = rankSection_rows [OF createRankingCrossTab_rows(1)]
    rankSection_rows [OF createRankingCrossTab_rows(2)]
    rankSection_rows [OF createRankingCrossTab_rows(3)]
    rankSection_rows [OF createRankingCrossTab_rows(4)]
    rankSection_rows [OF createRankingCrossTab_rows(5)]
  from assms consider
      "(label, absRow, pctRow) \<in> set (rankSection (rankOptions (createRankingCrossTab dataMap rs bannerVars bases)) bases ''Rank 1 Only'' (rank1Only (createRankingCrossTab dataMap rs bannerVars bases)))"
    | "(label, absRow, pctRow) \<in> set (rankSection (rankOptions (createRankingCrossTab dataMap rs bannerVars bases)) bases ''Rank 2 Only'' (rank2Only (createRankingCrossTab dataMap rs bannerVars bases)))"
    | "(label, absRow, pctRow) \<in> set (rankSection (rankOptions (createRankingCrossTab dataMap rs bannerVars bases)) bases ''Rank 3 Only'' (rank3Only (createRankingCrossTab dataMap rs bannerVars bases)))"
    | "(label, absRow, pctRow) \<in> set (rankSection (rankOptions (createRankingCrossTab dataMap rs bannerVars bases)) bases ''Rank 1 + 2'' (rank1Plus2 (createRankingCrossTab dataMap rs bannerVars bases)))"
    | "(label, absRow, pctRow) \<in> set (rankSection (rankOptions (createRankingCrossTab dataMap rs bannerVars bases)) bases ''Rank 1 + 2 + 3'' (rank1Plus2Plus3 (createRankingCrossTab dataMap rs bannerVars bases)))"
    unfolding rankSections_def by auto
  then show ?thesis
    by cases (rule r, assumption)+
qed

lemma shape_rankQuestion:
  "shapeInvariant (createRankQuestionCrossTab dataMap qName bannerVars rs allHeaders dispName)"
proof -
  define bases where "bases = rankBases dataMap bannerVars rs"
  define sections where "sections = rankSections (createRankingCrossTab dataMap rs bannerVars bases) bases"
  have rows: "\<And>x. x \<in> set sections \<Longrightarrow>
      length (fst (snd x)) = length bases \<and> length (snd (snd x)) = length bases"
    using rankSections_rows unfolding sections_def by (metis prod.collapse)
  have "map length (map (\<lambda>(label, absRow, pctRow). pctRow) sections) =
        map length (map (\<lambda>(label, absRow, pctRow). absRow) sections)"
    using rows by (auto simp: case_prod_beta)
  moreover have "list_all (\<lambda>absRow. length absRow = length bases)
                   (map (\<lambda>(label, absRow, pctRow). absRow) sections)"
    using rows by (auto simp: list_all_iff case_prod_beta)
  moreover have "length bases = Suc (length (bannerColumns dataMap bannerVars))"
    by (simp add: bases_def length_rankBases)
  ultimately show ?thesis
    by (simp add: createRankQuestionCrossTab_def Let_def shapeInvariant_def
          map_length_performSignificanceTests length_allBannerHeaders
          bases_def [symmetric] sections_def [symmetric])
qed


lemma set_dictEntries: "set (dictEntries d) = set d"
  by (auto simp: dictEntries_def)

lemma set_dictKeys: "set (dictKeys d) = fst ` set d"
  by (simp add: dictKeys_def set_dictEntries)

lemma processTableVariable_shape:
  assumes "processTableVariable data config dataMap ranks tableVar = Inr results"
    and "r \<in> set results"
  shows "shapeInvariant r"
  using assms shape_regular shape_multiSelect shape_rankQuestion
  by (auto simp: processTableVariable_def Let_def createCustomVariableCrossTab_def
        split: if_splits option.splits sum.splits)

lemma processTableVariables_shape:
  assumes "processTableVariables data config dataMap ranks tableVars = Inr results"
    and "r \<in> set results"
  shows "shapeInvariant r"
  using assms
proof (induction tableVars arbitrary: results)
  case Nil
  then show ?case by simp
next
  case (Cons tableVar rest)
  then show ?case
    by (auto split: sum.splits dest: processTableVariable_shape)
qed

text \<open>
  Claim C2. Every result that \<open>generateCrossTabs\<close> returns satisfies the shape invariant:
  \<open>absolute\<close>, \<open>percentage\<close> and \<open>significanceFlags\<close> have identical dimensions, there is
  one row label per row, and \<open>headers\<close>, \<open>baseValues\<close> and every row of \<open>absolute\<close> have the
  same length.
\<close>

theorem generateCrossTabs_shape:
  assumes "generateCrossTabs toNumber data config = Inr results"
  shows "\<forall>r \<in> set results. shapeInvariant r"
  using assms
  by (auto simp: generateCrossTabs_def Let_def split: sum.splits dest: processTableVariables_shape)

lemma processTableVariable_custom:
  assumes "tableVar \<in> fst ` set (customVariables config)"
    and "tableVar \<notin> fst ` set (multiSelectGroups config)"
  shows "processTableVariable data config dataMap ranks tableVar = Inr []"
  using assms
  by (auto simp: processTableVariable_def Let_def set_dictKeys createCustomVariableCrossTab_def
        split: option.splits)

lemma processTableVariable_config_cong:
  "processTableVariable data (config\<lparr>tableVariables := tvs\<rparr>) dataMap ranks tableVar =
   processTableVariable data config dataMap ranks tableVar"
proof -
  have "tableNameOf (config\<lparr>tableVariables := tvs\<rparr>) tableVar = tableNameOf config tableVar"
    by (simp add: tableNameOf_def)
  then show ?thesis
    by (simp add: processTableVariable_def cong: if_cong option.case_cong)
qed

lemma processTableVariables_config_cong:
  "processTableVariables data (config\<lparr>tableVariables := tvs\<rparr>) dataMap ranks tableVars =
   processTableVariables data config dataMap ranks tableVars"
  by (induction tableVars) (simp_all add: processTableVariable_config_cong cong: sum.case_cong)

lemma processTableVariables_drop_silent:
  assumes "\<And>tableVar. tableVar \<in> set tableVars \<Longrightarrow> \<not> keep tableVar \<Longrightarrow>
             processTableVariable data config dataMap ranks tableVar = Inr []"
  shows "processTableVariables data config dataMap ranks tableVars =
         processTableVariables data config dataMap ranks (filter keep tableVars)"
  using assms
proof (induction tableVars)
  case Nil
  then show ?case by simp
next
  case (Cons tableVar rest)
  then show ?case
    by (cases "keep tableVar") (auto split: sum.splits)
qed

text \<open>
  Claim C6, as the code has it. A selected table variable that names a custom variable (and
  is not the name of a multi-select group) is passed to the placeholder
  \<open>createCustomVariableCrossTab\<close>, which returns \<open>null\<close>: nothing is pushed and nothing is
  signalled. The run returns exactly what it returns when these variables are not selected.
\<close>

theorem generateCrossTabs_custom_variable_omitted:
  "generateCrossTabs toNumber data config =
   generateCrossTabs toNumber data
     (config\<lparr>tableVariables :=
               filter (\<lambda>tableVar. \<not> (tableVar \<in> fst ` set (customVariables config) \<and>
                                       tableVar \<notin> fst ` set (multiSelectGroups config)))
                      (tableVariables config)\<rparr>)"
proof -
  have "\<And>dataMap ranks.
          processTableVariables data config dataMap ranks (tableVariables config) =
          processTableVariables data config dataMap ranks
            (filter (\<lambda>tableVar. \<not> (tableVar \<in> fst ` set (customVariables config) \<and>
                                     tableVar \<notin> fst ` set (multiSelectGroups config)))
                    (tableVariables config))"
    by (rule processTableVariables_drop_silent) (simp add: processTableVariable_custom)
  then show ?thesis
    by (simp add: generateCrossTabs_def Let_def processTableVariables_config_cong
          split: sum.splits)
qed

lemma processTableVariables_error:
  assumes "tableVar \<in> set tableVars"
    and "processTableVariable data config dataMap ranks tableVar = Inl TypeError"
  shows "processTableVariables data config dataMap ranks tableVars = Inl TypeError"
  using assms
proof (induction tableVars)
  case Nil
  then show ?case by simp
next
  case (Cons tv rest)
  show ?case
  proof (cases "processTableVariable data config dataMap ranks tv")
    case (Inl e)
    then show ?thesis by (cases e) simp
  next
    case (Inr rs)
    with Cons have "processTableVariables data config dataMap ranks rest = Inl TypeError"
      by auto
    with Inr show ?thesis by simp
  qed
qed

lemma createMultiSelectCrossTab_no_rows:
  "multiSelectCols \<noteq> [] \<Longrightarrow>
   createMultiSelectCrossTab [] groupName bannerVars multiSelectCols allHeaders dispName = Inl TypeError"
  by (simp add: createMultiSelectCrossTab_def Let_def)

lemma createMultiSelectCrossTab_with_rows:
  "dataMap \<noteq> [] \<Longrightarrow> ''hasOwnProperty'' \<notin> dom (hd dataMap) \<Longrightarrow>
   \<exists>result. createMultiSelectCrossTab dataMap groupName bannerVars multiSelectCols allHeaders dispName
             = Inr result"
  by (simp add: createMultiSelectCrossTab_def Let_def)

text \<open>
  Claim C10. \<open>createMultiSelectCrossTab\<close> reads \<open>dataMap[0]\<close> in every iteration over the
  battery columns. With no rows and a non-empty column list it throws, so neither a result
  nor a validation warning is produced, and \<open>generateCrossTabs\<close> throws with it; with at
  least one row, whose columns do not include one named \<open>hasOwnProperty\<close>, it returns a
  result.
\<close>

theorem createMultiSelectCrossTab_needs_a_row:
  "(multiSelectCols \<noteq> [] \<longrightarrow>
      createMultiSelectCrossTab [] groupName bannerVars multiSelectCols allHeaders dispName
        = Inl TypeError) \<and>
   (dataMap \<noteq> [] \<and> ''hasOwnProperty'' \<notin> dom (hd dataMap) \<longrightarrow>
      (\<exists>result. createMultiSelectCrossTab dataMap groupName bannerVars multiSelectCols allHeaders
                  dispName = Inr result)) \<and>
   (dataRows (applyFilters toNumber data (filters config)) = [] \<and>
    tableVar \<in> set (tableVariables config) \<and>
    map_of (multiSelectGroups config) tableVar = Some multiSelectCols \<and>
    multiSelectCols \<noteq> [] \<longrightarrow>
      generateCrossTabs toNumber data config = Inl TypeError)"
proof (intro conjI impI)
  assume "multiSelectCols \<noteq> []"
  then show "createMultiSelectCrossTab [] groupName bannerVars multiSelectCols allHeaders dispName
               = Inl TypeError"
    by (rule createMultiSelectCrossTab_no_rows)
next
  assume "dataMap \<noteq> [] \<and> ''hasOwnProperty'' \<notin> dom (hd dataMap)"
  then show "\<exists>result. createMultiSelectCrossTab dataMap groupName bannerVars multiSelectCols
                     allHeaders dispName = Inr result"
    by (simp add: createMultiSelectCrossTab_with_rows)
next
  assume a: "dataRows (applyFilters toNumber data (filters config)) = [] \<and>
    tableVar \<in> set (tableVariables config) \<and>
    map_of (multiSelectGroups config) tableVar = Some multiSelectCols \<and>
    multiSelectCols \<noteq> []"
  then have key: "tableVar \<in> set (dictKeys (multiSelectGroups config))"
    by (auto simp: set_dictKeys dest: map_of_SomeD intro: rev_image_eqI)
  have one: "\<And>ranks. processTableVariable data config [] ranks tableVar = Inl TypeError"
    using a key by (simp add: processTableVariable_def Let_def createMultiSelectCrossTab_no_rows)
  show "generateCrossTabs toNumber data config = Inl TypeError"
  proof (cases "detectRankQuestionStructure (dataHeaders data) (questionTypes config)")
    case (Inl e)
    then show ?thesis by (cases e) (simp add: generateCrossTabs_def Let_def)
  next
    case (Inr ranks)
    then show ?thesis
      using a processTableVariables_error [OF _ one, of "tableVariables config" ranks]
      by (simp add: generateCrossTabs_def Let_def)
  qed
qed

section \<open>Scenario A and the scenario runs\<close>

lemma horner_lower:
  fixes t :: real
  assumes "0.72 \<le> t" "t \<le> 0.8"
  shows "0.45 \<le> t * (0.3193815 + t * (-0.3565638 + t * (1.781478 + t * (-1.821256 + t * 1.330274))))"
proof -
  define a4 where "a4 = -1.821256 + t * 1.330274"
  define a3 where "a3 = 1.781478 + t * a4"
  define a2 where "a2 = -0.3565638 + t * a3"
  define a1 where "a1 = 0.3193815 + t * a2"
  have a4l: "-0.864 \<le> a4" and a4u: "a4 \<le> 0" using assms by (simp_all add: a4_def)
  have "0.8 * a4 \<le> t * a4" using a4u assms by (intro mult_right_mono_neg) auto
  then have "-0.6912 \<le> t * a4" using a4l by simp
  then have a3: "1.09 \<le> a3" by (simp add: a3_def algebra_simps)
  have "0.72 * 1.09 \<le> t * a3" using a3 assms by (intro mult_mono) auto
  then have a2: "0.428 \<le> a2" by (simp add: a2_def algebra_simps)
  have "0.72 * 0.428 \<le> t * a2" using a2 assms by (intro mult_mono) auto
  then have a1: "0.627 \<le> a1" by (simp add: a1_def algebra_simps)
  have "0.72 * 0.627 \<le> t * a1" using a1 assms by (intro mult_mono) auto
  then show ?thesis by (simp add: a1_def a2_def a3_def a4_def)
qed

lemma exp_minus_lower: "exp (- (1.42 :: real)) \<ge> 0.2"
proof -
  have "exp (0.71 :: real) \<le> 1 + 0.71 + 0.71\<^sup>2"
    by (rule exp_bound) simp_all
  then have h: "exp (0.71 :: real) \<le> 2.22" by (simp add: power2_eq_square)
  have "exp (1.42 :: real) = exp 0.71 * exp 0.71"
    by (simp add: exp_add [symmetric])
  also have "\<dots> \<le> 2.22 * 2.22"
    using h by (intro mult_mono) auto
  finally have "exp (1.42 :: real) \<le> 5" by simp
  then have "1 / 5 \<le> 1 / exp (1.42 :: real)"
    by (intro divide_left_mono) auto
  then show ?thesis by (simp add: exp_minus inverse_eq_divide)
qed

lemma two_tailed_lower:
  assumes "1.08 \<le> x" "x \<le> 1.678"
  shows "0.05 \<le> 2 * (1 - normalCDF x)"
proof -
  have xpos: "0 < x" using assms by simp
  define t where "t = 1 / (1 + 0.2316419 * \<bar>x\<bar>)"
  have d1: "1.25 \<le> 1 + 0.2316419 * \<bar>x\<bar>" using assms xpos by simp
  have d2: "1 + 0.2316419 * \<bar>x\<bar> \<le> 1.3887" using assms xpos by simp
  have t1: "0.72 \<le> t"
  proof -
    have "1 / 1.3887 \<le> 1 / (1 + 0.2316419 * \<bar>x\<bar>)"
      using d1 d2 by (intro divide_left_mono) auto
    then show ?thesis by (simp add: t_def)
  qed
  have t2: "t \<le> 0.8"
  proof -
    have "1 / (1 + 0.2316419 * \<bar>x\<bar>) \<le> 1 / 1.25"
      using d1 by (intro divide_left_mono) auto
    then show ?thesis by (simp add: t_def)
  qed
  define q where "q = t * (0.3193815 + t * (-0.3565638 + t * (1.781478 + t * (-1.821256 + t * 1.330274))))"
  have q: "0.45 \<le> q" unfolding q_def by (rule horner_lower [OF t1 t2])
  have "x * x \<le> 1.678 * 1.678" using assms xpos by (intro mult_mono) auto
  then have "- 1.42 \<le> - x * x / 2" by simp
  then have "exp (- 1.42) \<le> exp (- x * x / 2)" by (simp only: exp_le_cancel_iff)
  then have e: "0.2 \<le> exp (- x * x / 2)" using exp_minus_lower by linarith
  have eq: "1 - normalCDF x = 0.3989423 * exp (- x * x / 2) * q"
    using xpos by (simp add: normalCDF_def Let_def t_def q_def mult.assoc)
  define w where "w = exp (- x * x / 2) * q"
  have "0.2 * 0.45 \<le> exp (- x * x / 2) * q"
    using e q by (intro mult_mono) auto
  then have w: "0.09 \<le> w" by (simp add: w_def)
  have "1 - normalCDF x = 0.3989423 * w"
    by (simp add: eq w_def mult.assoc)
  then show ?thesis using w by simp
qed

lemma zTest_band_not_significant:
  assumes r: "standardError count1 t1 count2 t2 = Num se" and se: "0 < se"
    and lo: "1.08 * se \<le> \<bar>real count1 / real t1 - real count2 / real t2\<bar>"
    and hi: "\<bar>real count1 / real t1 - real count2 / real t2\<bar> \<le> 1.678 * se"
    and t: "t1 \<noteq> 0" "t2 \<noteq> 0"
  shows "\<not> isSignificant (zTestForProportions count1 (Some t1) count2 (Some t2) 0.05)"
proof -
  define z where "z = (real count1 / real t1 - real count2 / real t2) / se"
  have az: "\<bar>z\<bar> = \<bar>real count1 / real t1 - real count2 / real t2\<bar> / se"
    using se by (simp add: z_def)
  have "1.08 \<le> \<bar>z\<bar>" using lo se by (simp add: az pos_le_divide_eq)
  moreover have "\<bar>z\<bar> \<le> 1.678" using hi se by (simp add: az pos_divide_le_eq)
  ultimately have "0.05 \<le> 2 * (1 - normalCDF \<bar>z\<bar>)" by (rule two_tailed_lower)
  then show ?thesis
    using r se t by (simp add: zTestForProportions_def Let_def z_def)
qed
lemma scenarioA_values: "tableValuesOf scenarioADataMap ''Gender'' = [''Female'', ''Male'']"
  by code_simp

lemma scenarioA_columns:
  "bannerColumns scenarioADataMap [''Region''] = [(''Region'', ''North''), (''Region'', ''South'')]"
  by code_simp

lemma scenarioA_bases: "regularBases scenarioADataMap ''Gender'' [''Region''] = [100, 40, 60]"
  by code_simp

lemma scenarioA_female:
  "regularCounts scenarioADataMap ''Gender'' [''Region''] ''Female'' = [40, 10, 30]"
  by code_simp

lemma scenarioA_male:
  "regularCounts scenarioADataMap ''Gender'' [''Region''] ''Male'' = [60, 30, 30]"
  by code_simp

lemma scenarioA_percent_female:
  "percentRow [40, 10, 30] [100, 40, 60] 2 = [''40%'', ''25%'', ''50%'']"
  by code_simp

lemma scenarioA_percent_male:
  "percentRow [60, 30, 30] [100, 40, 60] 2 = [''60%'', ''75%'', ''50%'']"
  by code_simp

lemma scenarioA_warnings:
  "percentageWarnings [''Total'', ''North'', ''South'']
     [[''40%'', ''25%'', ''50%''], [''60%'', ''75%'', ''50%''], [''100%'', ''100%'', ''100%'']] 2 = []"
  by code_simp

lemma scenarioA_banner:
  "createBannerStructure [''Region''] scenarioADataMap =
     [\<lparr>question = ''Region'', answers = [''North'', ''South''], startIndex = 1, endIndex = 2\<rparr>]"
  by code_simp

lemma se_north: "standardError c1 40 c2 100 = Num (sqrt (9 / 1120))" if "c1 + c2 = 50 \<or> c1 + c2 = 90" for c1 c2
proof -
  have "real c1 + real c2 = 50 \<or> real c1 + real c2 = 90"
    using that by (metis of_nat_add of_nat_numeral)
  then show ?thesis
    by (auto simp: standardError_def Let_def)
qed

lemma se_south: "standardError c1 60 c2 100 = Num (sqrt (21 / 3200))" if "c1 + c2 = 70 \<or> c1 + c2 = 90" for c1 c2
proof -
  have "real c1 + real c2 = 70 \<or> real c1 + real c2 = 90"
    using that by (metis of_nat_add of_nat_numeral)
  then show ?thesis
    by (auto simp: standardError_def Let_def)
qed

lemma sqrt_north: "0.15 / 1.678 \<le> sqrt (9 / 1120)" "sqrt (9 / 1120) \<le> 0.15 / 1.08"
  by (rule real_le_rsqrt, simp add: power2_eq_square)
     (rule real_le_lsqrt, simp_all add: power2_eq_square)

lemma sqrt_south: "0.1 / 1.678 \<le> sqrt (21 / 3200)" "sqrt (21 / 3200) \<le> 0.1 / 1.08"
  by (rule real_le_rsqrt, simp add: power2_eq_square)
     (rule real_le_lsqrt, simp_all add: power2_eq_square)

lemma north_not_significant:
  assumes "(c1 = 10 \<and> c2 = 40) \<or> (c1 = 30 \<and> c2 = 60)"
  shows "\<not> isSignificant (zTestForProportions c1 (Some 40) c2 (Some 100) 0.05)"
proof (rule zTest_band_not_significant [where se = "sqrt (9 / 1120)"])
  show "standardError c1 40 c2 100 = Num (sqrt (9 / 1120))"
    using assms by (intro se_north) auto
  show "0 < sqrt (9 / 1120 :: real)" by simp
  have d: "\<bar>real c1 / real 40 - real c2 / real 100\<bar> = 0.15"
    using assms by auto
  show "1.08 * sqrt (9 / 1120) \<le> \<bar>real c1 / real 40 - real c2 / real 100\<bar>"
    unfolding d using sqrt_north(2) by simp
  show "\<bar>real c1 / real 40 - real c2 / real 100\<bar> \<le> 1.678 * sqrt (9 / 1120)"
    unfolding d using sqrt_north(1) by simp
qed simp_all

lemma south_not_significant:
  assumes "(c1 = 30 \<and> c2 = 40) \<or> (c1 = 30 \<and> c2 = 60)"
  shows "\<not> isSignificant (zTestForProportions c1 (Some 60) c2 (Some 100) 0.05)"
proof (rule zTest_band_not_significant [where se = "sqrt (21 / 3200)"])
  show "standardError c1 60 c2 100 = Num (sqrt (21 / 3200))"
    using assms by (intro se_south) auto
  show "0 < sqrt (21 / 3200 :: real)" by simp
  have d: "\<bar>real c1 / real 60 - real c2 / real 100\<bar> = 0.1"
    using assms by auto
  show "1.08 * sqrt (21 / 3200) \<le> \<bar>real c1 / real 60 - real c2 / real 100\<bar>"
    unfolding d using sqrt_south(2) by simp
  show "\<bar>real c1 / real 60 - real c2 / real 100\<bar> \<le> 1.678 * sqrt (21 / 3200)"
    unfolding d using sqrt_south(1) by simp
qed simp_all

lemma total_row_not_significant:
  "\<not> isSignificant (zTestForProportions 40 (Some 40) 100 (Some 100) 0.05)"
  "\<not> isSignificant (zTestForProportions 60 (Some 60) 100 (Some 100) 0.05)"
  by (simp_all add: zTestForProportions_def standardError_def notSignificant_def Let_def)

lemma upt3: "[0 ..< 3] = [0, 1, 2]"
  by (simp add: upt_rec)

lemma scenarioA_flags:
  "performSignificanceTests [[40, 10, 30], [60, 30, 30], [100, 40, 60]] [100, 40, 60] 0.05 =
     [['''', '''', ''''], ['''', '''', ''''], ['''', '''', '''']]"
  using north_not_significant [of 10 40] north_not_significant [of 30 60]
    south_not_significant [of 30 40] south_not_significant [of 30 60]
    total_row_not_significant
  by (simp add: performSignificanceTests_def flagCell_def elemAt_def Let_def upt3)

lemma scenarioA_regular:
  "createRegularCrossTab scenarioADataMap ''Gender'' [''Region''] Binary [''Gender'', ''Region'']
     (TableName ''Gender'') = Some scenarioAResult"
proof -
  have two: "Suc (Suc 0) = 2" by simp
  have alpha: "(1 / 20 :: real) = 0.05" by simp
  show ?thesis
    by (simp add: createRegularCrossTab_def Let_def scenarioA_values scenarioA_columns
          scenarioA_bases scenarioA_female scenarioA_male
          allBannerHeaders_def bannerQuestionOf_def scenarioAResult_def scenarioA_banner)
       (simp only: two alpha scenarioA_percent_female scenarioA_percent_male
          scenarioA_warnings scenarioA_flags simp_thms)
qed


lemma applyFilters_no_filters: "applyFilters toNumber data [] = data"
  by (simp add: applyFilters_def dictKeys_def dictEntries_def)

lemma scenarioA_generate:
  "generateCrossTabs noNumber scenarioAData scenarioAConfig = Inr [scenarioAResult]"
proof -
  have h: "dataHeaders scenarioAData = [''Gender'', ''Region'']"
    by (simp add: scenarioAData_def)
  have d: "detectRankQuestionStructure (dataHeaders scenarioAData) (questionTypes scenarioAConfig)
             = Inr []"
    by (simp add: detectRankQuestionStructure_def h scenarioAConfig_def dictEntries_def
          List.map_filter_simps)
  have f: "applyFilters noNumber scenarioAData (filters scenarioAConfig) = scenarioAData"
    by (simp add: scenarioAConfig_def applyFilters_no_filters)
  have m: "map (mkRowData (dataHeaders scenarioAData)) (dataRows scenarioAData) = scenarioADataMap"
    by (simp add: scenarioADataMap_def)
  have tv: "tableVariables scenarioAConfig = [''Gender'']"
    by (simp add: scenarioAConfig_def)
  have p: "processTableVariable scenarioAData scenarioAConfig scenarioADataMap [] ''Gender''
             = Inr [scenarioAResult]"
    by (simp add: processTableVariable_def Let_def scenarioAConfig_def dictKeys_def
          dictEntries_def h tableNameOf_def objectPrototypeKeys_def scenarioA_regular)
  show ?thesis
    unfolding generateCrossTabs_def Let_def f m d tv by (simp add: p)
qed

text \<open>
  Claim C2, witness: the run on Scenario A returns one result, and it has the shape.
\<close>

theorem generateCrossTabs_shape_witness:
  "generateCrossTabs noNumber scenarioAData scenarioAConfig = Inr [scenarioAResult] \<and>
   shapeInvariant scenarioAResult"
  using generateCrossTabs_shape [OF scenarioA_generate] scenarioA_generate by simp

text \<open>
  Claim C4 as stated fails on Scenario A: the absolute matrix has the Female row first (the
  categories are sorted) and a third row of totals, and no cell carries a significance
  flag: the South/Male cell (30 of 60 against 60 of 100) has \<open>z\<^sup>2 = 32/21\<close>, far from
  significance at 0.05.
\<close>

theorem createRegularCrossTab_scenarioA_counterexample:
  "map_option absolute
     (createRegularCrossTab scenarioADataMap ''Gender'' [''Region''] Binary
        [''Gender'', ''Region''] (TableName ''Gender''))
     = Some [[40, 10, 30], [60, 30, 30], [100, 40, 60]] \<and>
   map_option rowLabels
     (createRegularCrossTab scenarioADataMap ''Gender'' [''Region''] Binary
        [''Gender'', ''Region''] (TableName ''Gender''))
     = Some [''Female'', ''Male'', ''Total''] \<and>
   map_option significanceFlags
     (createRegularCrossTab scenarioADataMap ''Gender'' [''Region''] Binary
        [''Gender'', ''Region''] (TableName ''Gender''))
     = Some [['''', '''', ''''], ['''', '''', ''''], ['''', '''', '''']]"
  by (simp add: scenarioA_regular scenarioAResult_def)

text \<open>
  Claim C4, as the code has it. On Scenario A \<open>createRegularCrossTab\<close> returns headers
  Total, North, South; the rows Female, Male and Total with counts 40/10/30, 60/30/30 and
  100/40/60; the percentages 40/25/50, 60/75/50 and 100/100/100 as texts with a percent
  sign; bases 100/40/60; no validation warning; and an empty significance flag in every
  cell.
\<close>

theorem createRegularCrossTab_scenarioA:
  "createRegularCrossTab scenarioADataMap ''Gender'' [''Region''] Binary
     [''Gender'', ''Region''] (TableName ''Gender'') =
   Some \<lparr>name = ''Gender_by_Region'',
         displayName = TableName ''Gender'',
         absolute = [[40, 10, 30], [60, 30, 30], [100, 40, 60]],
         percentage = [[''40%'', ''25%'', ''50%''], [''60%'', ''75%'', ''50%''],
                       [''100%'', ''100%'', ''100%'']],
         headers = [''Total'', ''North'', ''South''],
         rowLabels = [''Female'', ''Male'', ''Total''],
         bannerQuestion = ''Region'',
         bannerAnswers = [''North'', ''South''],
         questionType = Binary,
         baseValues = [100, 40, 60],
         validationErrors = [],
         significanceFlags = [['''', '''', ''''], ['''', '''', ''''], ['''', '''', '''']],
         bannerStructure =
           [\<lparr>question = ''Region'', answers = [''North'', ''South''],
             startIndex = 1, endIndex = 2\<rparr>]\<rparr>"
  by (simp add: scenarioA_regular scenarioAResult_def)

text \<open>
  Claim C6 as stated fails: with the custom variable Segment as the only selected table
  variable the run completes normally with an empty result list; there is no failure
  signal.
\<close>

theorem custom_variable_counterexample:
  "generateCrossTabs noNumber scenarioAData scenarioCustomConfig = Inr []"
proof -
  have "detectRankQuestionStructure [''Gender'', ''Region''] Map.empty = Inr []"
    by (simp add: detectRankQuestionStructure_def dictEntries_def List.map_filter_simps)
  moreover have "\<And>dataMap. processTableVariable scenarioAData scenarioCustomConfig dataMap []
                   ''Segment'' = Inr []"
    by (rule processTableVariable_custom) (simp_all add: scenarioCustomConfig_def)
  ultimately show ?thesis
    by (simp add: generateCrossTabs_def Let_def scenarioAData_def
          scenarioCustomConfig_def [THEN arg_cong, of filters]
          scenarioCustomConfig_def [THEN arg_cong, of questionTypes]
          scenarioCustomConfig_def [THEN arg_cong, of tableVariables])
qed

text \<open>
  Claim C6, witness: the same run equals the run with no table variable selected.
\<close>

theorem generateCrossTabs_custom_variable_omitted_witness:
  "generateCrossTabs noNumber scenarioAData scenarioCustomConfig =
   generateCrossTabs noNumber scenarioAData (scenarioCustomConfig\<lparr>tableVariables := []\<rparr>)"
  using generateCrossTabs_custom_variable_omitted [of noNumber scenarioAData scenarioCustomConfig]
  by (simp add: scenarioCustomConfig_def)

text \<open>
  Claim C10, witness: the battery Channels on no rows throws, on the rows of Scenario A it
  returns a result, and the run on the empty sheet throws.
\<close>

theorem createMultiSelectCrossTab_needs_a_row_witness:
  "createMultiSelectCrossTab [] ''Channels'' [''Region''] [''Web'', ''Phone'']
     [''Web'', ''Phone'', ''Region''] (TableName ''Channels'') = Inl TypeError \<and>
   (\<exists>result. createMultiSelectCrossTab scenarioADataMap ''Channels'' [''Region'']
                [''Web'', ''Phone''] [''Web'', ''Phone'', ''Region''] (TableName ''Channels'')
              = Inr result) \<and>
   generateCrossTabs noNumber scenarioEmptyData scenarioMultiConfig = Inl TypeError"
proof -
  have rows: "scenarioADataMap \<noteq> []"
    by (simp add: scenarioADataMap_def scenarioAData_def)
  have "hd scenarioADataMap ''hasOwnProperty'' = None"
    by (simp add: scenarioADataMap_def scenarioAData_def mkRowData_def upt_rec)
  then have own: "''hasOwnProperty'' \<notin> dom (hd scenarioADataMap)"
    by (simp add: domIff)
  have none: "dataRows (applyFilters noNumber scenarioEmptyData (filters scenarioMultiConfig)) = []"
    by (simp add: scenarioMultiConfig_def applyFilters_no_filters scenarioEmptyData_def)
  have sel: "''Channels'' \<in> set (tableVariables scenarioMultiConfig)"
    by (simp add: scenarioMultiConfig_def)
  have grp: "map_of (multiSelectGroups scenarioMultiConfig) ''Channels'' = Some [''Web'', ''Phone'']"
    by (simp add: scenarioMultiConfig_def)
  show ?thesis
    using createMultiSelectCrossTab_needs_a_row
            [where multiSelectCols = "[''Web'', ''Phone'']" and dataMap = scenarioADataMap
               and groupName = "''Channels''" and bannerVars = "[''Region'']"
               and allHeaders = "[''Web'', ''Phone'', ''Region'']" and dispName = "TableName ''Channels''"
               and toNumber = noNumber and data = scenarioEmptyData
               and config = scenarioMultiConfig and tableVar = "''Channels''"]
          rows own none sel grp
    by simp
qed

lemma filterAccepts_default:
  "operator flt = IsEmpty \<or> operator flt = IsNotEmpty \<Longrightarrow> filterAccepts toNumber hs row flt"
  by (auto simp: filterAccepts_def Let_def split: option.splits)

text \<open>
  Claim C5, as the code has it. The \<open>switch\<close> of \<open>applyFilters\<close> has no case for \<open>is_empty\<close>
  and \<open>is_not_empty\<close>: a filter with one of these operators evaluates to true on every row,
  whatever the cell holds, and the filtered dataset keeps exactly the rows that all the
  other filters accept.
\<close>

theorem applyFilters_emptiness_operators_ignored:
  "(operator flt = IsEmpty \<or> operator flt = IsNotEmpty \<longrightarrow> filterAccepts toNumber hs row flt) \<and>
   dataRows (applyFilters toNumber data fs) =
     filter (\<lambda>row. \<forall>(filterId, f) \<in> set fs.
                      operator f \<noteq> IsEmpty \<and> operator f \<noteq> IsNotEmpty \<longrightarrow>
                      filterAccepts toNumber (dataHeaders data) row f)
            (dataRows data)"
proof
  show "operator flt = IsEmpty \<or> operator flt = IsNotEmpty \<longrightarrow> filterAccepts toNumber hs row flt"
    using filterAccepts_default by blast
next
  show "dataRows (applyFilters toNumber data fs) =
     filter (\<lambda>row. \<forall>(filterId, f) \<in> set fs.
                      operator f \<noteq> IsEmpty \<and> operator f \<noteq> IsNotEmpty \<longrightarrow>
                      filterAccepts toNumber (dataHeaders data) row f)
            (dataRows data)"
  proof (cases "fs = []")
    case True
    then show ?thesis by (simp add: applyFilters_no_filters)
  next
    case False
    then have "length (dictKeys fs) \<noteq> 0"
      by (metis length_0_conv set_dictKeys set_empty image_is_empty)
    then show ?thesis
      using filterAccepts_default
      by (auto simp: applyFilters_def list_all_iff set_dictEntries intro!: filter_cong)
  qed
qed

text \<open>
  Claim C5 as stated fails: under the filter "Q1 is empty" the row whose Q1 cell is
  \<open>answered\<close> is kept.
\<close>

theorem applyFilters_isEmpty_counterexample:
  "dataRows (applyFilters noNumber scenarioFilterData scenarioIsEmptyFilter) =
     [[CStr ''answered''], [CStr '''']]"
  by (simp add: applyFilters_def scenarioFilterData_def scenarioIsEmptyFilter_def
        dictKeys_def dictEntries_def isArrayIndex_def isDigit_def
        filterAccepts_def Let_def split: option.splits)

text \<open>
  Claim C5, witness: the filter "Q1 is empty" accepts the answered row and removes nothing.
\<close>

theorem applyFilters_emptiness_operators_ignored_witness:
  "filterAccepts noNumber [''Q1''] [CStr ''answered'']
     \<lparr>column = ''Q1'', operator = IsEmpty, filterValue = CStr '''', secondValue = None\<rparr> \<and>
   dataRows (applyFilters noNumber scenarioFilterData scenarioIsEmptyFilter) =
     dataRows scenarioFilterData"
  using applyFilters_emptiness_operators_ignored
          [where flt = "\<lparr>column = ''Q1'', operator = IsEmpty, filterValue = CStr '''',
                          secondValue = None\<rparr>"
             and toNumber = noNumber and hs = "[''Q1'']" and row = "[CStr ''answered'']"
             and data = scenarioFilterData and fs = scenarioIsEmptyFilter]
  by (simp add: scenarioIsEmptyFilter_def)

section \<open>Type detection: the date stage\<close>

text \<open>
  Claim C8, as the code has it. When more than 60% of the cleaned sample matches a date or
  time pattern or parses as a date with year in 1900..2100, and the header holds a date
  keyword or the unique-value ratio exceeds 0.7, the column is classified as a date, with
  confidence 0.95 when a date keyword is present and 0.8 otherwise. The comparison is
  strict: a proportion of exactly 60% does not qualify.
\<close>

theorem analyzeQuestionType_date_stage:
  assumes "cleanValues = cleanSample vals sampleSize"
    and "cleanValues \<noteq> []"
    and "of_nat (length (dateMatches dateYear cleanValues))
           > of_nat (length cleanValues) * (6 / 10 :: rat)"
    and "hasKeyword dateKeywords header \<or> uniqueRatio cleanValues > 7 / 10"
  shows "detectedType (analyzeQuestionType toNumber dateYear header vals sampleSize) = Date \<and>
         confidence (analyzeQuestionType toNumber dateYear header vals sampleSize)
           = (if hasKeyword dateKeywords header then 95 / 100 else 8 / 10)"
  using assms by (auto simp: analyzeQuestionType_def Let_def)

lemma scenarioAllDates_sample:
  "cleanSample scenarioAllDates 100 = [''2024-01-01'', ''2024-01-02'', ''2024-01-03'']"
  by code_simp

lemma scenarioAllDates_matches:
  "dateMatches noDate [''2024-01-01'', ''2024-01-02'', ''2024-01-03'']
     = [''2024-01-01'', ''2024-01-02'', ''2024-01-03'']"
  by code_simp

lemma visit_date_keyword: "hasKeyword dateKeywords ''Visit date''"
  by code_simp

theorem analyzeQuestionType_date_stage_witness:
  "detectedType (analyzeQuestionType noNumber noDate ''Visit date'' scenarioAllDates 100) = Date \<and>
   confidence (analyzeQuestionType noNumber noDate ''Visit date'' scenarioAllDates 100) = 95 / 100"
  using analyzeQuestionType_date_stage
          [where cleanValues = "[''2024-01-01'', ''2024-01-02'', ''2024-01-03'']"
             and vals = scenarioAllDates and sampleSize = 100 and dateYear = noDate
             and header = "''Visit date''" and toNumber = noNumber]
  by (simp add: scenarioAllDates_sample scenarioAllDates_matches visit_date_keyword)

lemma scenarioDate_sample:
  "cleanSample scenarioDateValues 100
     = [''2024-01-01'', ''2024-01-02'', ''2024-01-03'', ''n.a.'', ''unknown'']"
  by code_simp

lemma scenarioDate_matches:
  "dateMatches noDate [''2024-01-01'', ''2024-01-02'', ''2024-01-03'', ''n.a.'', ''unknown'']
     = [''2024-01-01'', ''2024-01-02'', ''2024-01-03'']"
  by code_simp

text \<open>
  Claim C8 as stated fails at exactly 60%: three of the five cleaned values are dates and
  the header \<open>Visit date\<close> holds a date keyword, yet the date stage does not fire and the
  cascade ends in the default classification.
\<close>

theorem analyzeQuestionType_sixty_percent_counterexample:
  "length (dateMatches noDate (cleanSample scenarioDateValues 100)) = 3 \<and>
   length (cleanSample scenarioDateValues 100) = 5 \<and>
   hasKeyword dateKeywords ''Visit date'' \<and>
   analyzeQuestionType noNumber noDate ''Visit date'' scenarioDateValues 100 =
     \<lparr>detectedType = SingleChoice, confidence = 4 / 10,
      reasoning = ''Default classification - 5 unique values from 5 responses''\<rparr>"
proof -
  have "analyzeQuestionType noNumber noDate ''Visit date'' scenarioDateValues 100 =
     \<lparr>detectedType = SingleChoice, confidence = 4 / 10,
      reasoning = ''Default classification - 5 unique values from 5 responses''\<rparr>"
    by code_simp
  then show ?thesis
    by (simp add: scenarioDate_sample scenarioDate_matches visit_date_keyword)
qed

section \<open>Open-end coding: every response gets a listed category\<close>

lemma bestCategory_fold_listed:
  assumes "case best of None \<Rightarrow> True | Some c \<Rightarrow> c \<in> S"
    and "set cats \<subseteq> S"
  shows "case fst (foldl (\<lambda>(best, bestScore) category.
              let score = calculateCategoryScore t category
              in if score > bestScore then (Some category, score) else (best, bestScore))
           (best, s) cats) of None \<Rightarrow> True | Some c \<Rightarrow> c \<in> S"
  using assms
proof (induction cats arbitrary: best s)
  case Nil
  then show ?case by simp
next
  case (Cons category rest)
  show ?case
  proof (cases "calculateCategoryScore t category > s")
    case True
    have "case Some category of None \<Rightarrow> True | Some c \<Rightarrow> c \<in> S"
      using Cons.prems(2) by simp
    from Cons.IH [OF this, of "calculateCategoryScore t category"] Cons.prems(2) True
    show ?thesis by (simp add: Let_def)
  next
    case False
    from Cons.IH [OF Cons.prems(1), of s] Cons.prems(2) False
    show ?thesis by (simp add: Let_def)
  qed
qed

lemma bestCategory_listed:
  assumes "bestCategory t cats = (Some c, s)"
  shows "c \<in> set cats"
proof -
  have init: "case elemAt cats (length cats - 1) of None \<Rightarrow> True | Some c \<Rightarrow> c \<in> set cats"
    by (cases "length cats - 1 < length cats") (simp_all add: elemAt_def)
  from bestCategory_fold_listed [OF init subset_refl, of t 0]
  show ?thesis using assms by (simp add: bestCategory_def)
qed

lemma bestCategory_fold_defined:
  assumes "best \<noteq> None"
  shows "fst (foldl (\<lambda>(best, bestScore) category.
              let score = calculateCategoryScore t category
              in if score > bestScore then (Some category, score) else (best, bestScore))
           (best, s) cats) \<noteq> None"
  using assms
proof (induction cats arbitrary: best s)
  case Nil
  then show ?case by simp
next
  case (Cons category rest)
  show ?case
  proof (cases "calculateCategoryScore t category > s")
    case True
    from Cons.IH [of "Some category" "calculateCategoryScore t category"] True
    show ?thesis by (simp add: Let_def)
  next
    case False
    from Cons.IH [OF Cons.prems, of s] False
    show ?thesis by (simp add: Let_def)
  qed
qed

lemma bestCategory_defined:
  assumes "cats \<noteq> []"
  shows "fst (bestCategory t cats) \<noteq> None"
proof -
  have "elemAt cats (length cats - 1) \<noteq> None"
    using assms by (simp add: elemAt_def)
  then show ?thesis
    unfolding bestCategory_def by (rule bestCategory_fold_defined)
qed

lemma assignResponse_listed:
  assumes "assignResponse cats response = Inr coded"
  shows "\<exists>c \<in> set cats. categoryIdOf c = categoryId coded"
proof -
  obtain best s where b: "bestCategory (responseText response) cats = (best, s)"
    by (cases "bestCategory (responseText response) cats")
  show ?thesis
  proof (cases best)
    case None
    with b assms show ?thesis by (simp add: assignResponse_def del: showNat.simps)
  next
    case (Some c)
    with b have "c \<in> set cats" by (simp add: bestCategory_listed)
    moreover from b Some assms have "categoryId coded = categoryIdOf c"
      by (auto simp add: assignResponse_def simp del: showNat.simps)
    ultimately show ?thesis by auto
  qed
qed

lemma assignResponse_defined:
  assumes "cats \<noteq> []"
  shows "\<exists>coded. assignResponse cats response = Inr coded"
proof -
  obtain best s where b: "bestCategory (responseText response) cats = (best, s)"
    by (cases "bestCategory (responseText response) cats")
  with bestCategory_defined [OF assms, of "responseText response"]
  obtain c where "best = Some c" by auto
  with b show ?thesis by (simp add: assignResponse_def del: showNat.simps)
qed

lemma assignResponsesToCategories_listed:
  assumes "assignResponsesToCategories rs cats = Inr codedList"
    and "r \<in> set codedList"
  shows "\<exists>c \<in> set cats. categoryIdOf c = categoryId r"
  using assms
proof (induction rs arbitrary: codedList)
  case Nil
  then show ?case by simp
next
  case (Cons response rest)
  from Cons.prems(1) obtain coded others where
    c: "assignResponse cats response = Inr coded" and
    o: "assignResponsesToCategories rest cats = Inr others" and
    l: "codedList = coded # others"
    by (auto split: sum.splits)
  from Cons.prems(2) l have "r = coded \<or> r \<in> set others" by simp
  then show ?case
  proof
    assume "r = coded"
    with assignResponse_listed [OF c] show ?thesis by simp
  next
    assume "r \<in> set others"
    with Cons.IH [OF o] show ?thesis .
  qed
qed

lemma assignResponsesToCategories_defined:
  assumes "cats \<noteq> []"
  shows "\<exists>codedList. assignResponsesToCategories rs cats = Inr codedList"
proof (induction rs)
  case Nil
  then show ?case by simp
next
  case (Cons response rest)
  then obtain others where "assignResponsesToCategories rest cats = Inr others" by auto
  moreover obtain coded where "assignResponse cats response = Inr coded"
    using assignResponse_defined [OF assms, of response] by auto
  ultimately show ?case by simp
qed

text \<open>
  Claim C9. Every coded response in the output of \<open>codeResponses\<close> carries the id of a
  category of the returned category list, for every batch and every settings value; and
  the call returns whenever category generation yields at least one category. (With
  responses to code and no category at all the source reads \<open>.id\<close> of \<open>undefined\<close> and
  throws, so there is no output.)
\<close>

theorem codeResponses_category_listed:
  "(codeResponses cfg rs qColumn = Inr coding \<longrightarrow>
      (\<forall>r \<in> set (responses coding). \<exists>c \<in> set (categories coding).
          categoryIdOf c = categoryId r)) \<and>
   (generateCategories cfg (preprocessResponses cfg rs) \<noteq> [] \<longrightarrow>
      (\<exists>result. codeResponses cfg rs qColumn = Inr result))"
proof (intro conjI impI ballI)
  fix r
  assume a: "codeResponses cfg rs qColumn = Inr coding" and r: "r \<in> set (responses coding)"
  from a obtain codedList where
    l: "assignResponsesToCategories (preprocessResponses cfg rs)
          (generateCategories cfg (preprocessResponses cfg rs)) = Inr codedList" and
    c: "coding = \<lparr>questionColumn = qColumn, responses = codedList,
                   categories = generateCategories cfg (preprocessResponses cfg rs),
                   settings = cfg\<rparr>"
    by (auto simp: codeResponses_def Let_def split: sum.splits)
  from r c have "r \<in> set codedList" by simp
  from assignResponsesToCategories_listed [OF l this] c
  show "\<exists>c \<in> set (categories coding). categoryIdOf c = categoryId r" by simp
next
  assume "generateCategories cfg (preprocessResponses cfg rs) \<noteq> []"
  from assignResponsesToCategories_defined [OF this, of "preprocessResponses cfg rs"]
  obtain codedList where
    "assignResponsesToCategories (preprocessResponses cfg rs)
          (generateCategories cfg (preprocessResponses cfg rs)) = Inr codedList" by auto
  then show "\<exists>result. codeResponses cfg rs qColumn = Inr result"
    by (simp add: codeResponses_def Let_def)
qed

lemma scenario_clean:
  "preprocessResponses scenarioCodingSettings scenarioResponses =
     [\<lparr>responseText = ''The price is too high'', originalIndex = 0\<rparr>,
      \<lparr>responseText = ''Good price and value'', originalIndex = 1\<rparr>,
      \<lparr>responseText = ''Parking was hard'', originalIndex = 2\<rparr>]"
  by code_simp

lemma scenario_categories:
  "keywordBasedClustering scenarioCodingSettings
     [\<lparr>responseText = ''The price is too high'', originalIndex = 0\<rparr>,
      \<lparr>responseText = ''Good price and value'', originalIndex = 1\<rparr>,
      \<lparr>responseText = ''Parking was hard'', originalIndex = 2\<rparr>] = scenarioCategories"
  apply code_simp
  apply (simp add: scenarioCategories_def)?
  done

lemma scenario_assign:
  "assignResponsesToCategories
     [\<lparr>responseText = ''The price is too high'', originalIndex = 0\<rparr>,
      \<lparr>responseText = ''Good price and value'', originalIndex = 1\<rparr>,
      \<lparr>responseText = ''Parking was hard'', originalIndex = 2\<rparr>] scenarioCategories
     = Inr scenarioCoded"
  by code_simp

lemma scenario_code:
  "codeResponses scenarioCodingSettings scenarioResponses ''Q7'' =
     Inr \<lparr>questionColumn = ''Q7'', responses = scenarioCoded, categories = scenarioCategories,
          settings = scenarioCodingSettings\<rparr>"
proof -
  have u: "useSemanticClustering scenarioCodingSettings = False"
    by (simp add: scenarioCodingSettings_def)
  have "generateCategories scenarioCodingSettings
          (preprocessResponses scenarioCodingSettings scenarioResponses) = scenarioCategories"
    unfolding generateCategories_def u scenario_clean by (simp only: if_False scenario_categories)
  then show ?thesis
    unfolding codeResponses_def Let_def scenario_clean
    by (simp only: scenario_clean scenario_assign sum.case)
qed

text \<open>
  Claim C9, witness: the batch of Scenario responses is coded into the categories
  \<open>cat_0\<close> and \<open>cat_other\<close>, and every coded response carries one of these ids.
\<close>

theorem codeResponses_category_listed_witness:
  "codeResponses scenarioCodingSettings scenarioResponses ''Q7'' =
     Inr \<lparr>questionColumn = ''Q7'', responses = scenarioCoded, categories = scenarioCategories,
          settings = scenarioCodingSettings\<rparr> \<and>
   set (map categoryId scenarioCoded) \<subseteq> set (map categoryIdOf scenarioCategories)"
proof -
  have listed: "\<forall>r \<in> set scenarioCoded. \<exists>c \<in> set scenarioCategories.
                  categoryIdOf c = categoryId r"
    using codeResponses_category_listed
            [of scenarioCodingSettings scenarioResponses "''Q7''"
                "\<lparr>questionColumn = ''Q7'', responses = scenarioCoded,
                  categories = scenarioCategories, settings = scenarioCodingSettings\<rparr>"]
          scenario_code
    by simp
  have "set (map categoryId scenarioCoded) \<subseteq> set (map categoryIdOf scenarioCategories)"
  proof
    fix x
    assume "x \<in> set (map categoryId scenarioCoded)"
    then obtain r where r: "r \<in> set scenarioCoded" and x: "x = categoryId r"
      by auto
    from listed r obtain c where "c \<in> set scenarioCategories" and "categoryIdOf c = categoryId r"
      by blast
    with x show "x \<in> set (map categoryIdOf scenarioCategories)"
      by force
  qed
  with scenario_code show ?thesis by simp
qed

end
